theory Spec2Isabelle
  imports Main "HOL-Library.Sublist"
begin

unbundle bit_operations_syntax

section \<open>JavaScript string primitives used by the sources\<close>

text \<open>
  Strings are lists of 8-bit characters: a source string is read as its sequence of
  code units, all below 256. The character classes are those of the ECMAScript
  regular expressions \<^verbatim>\<open>\s\<close>, \<^verbatim>\<open>\w\<close>, \<^verbatim>\<open>\d\<close> and \<^verbatim>\<open>.\<close> restricted to that range.
\<close>

definition isSpace :: "char \<Rightarrow> bool" where
  "isSpace c = (c = CHR 0x09 \<or> c = CHR 0x0A \<or> c = CHR 0x0B \<or> c = CHR 0x0C \<or> c = CHR 0x0D
                \<or> c = CHR 0x20 \<or> c = CHR 0xA0)"

definition isLineTerminator :: "char \<Rightarrow> bool" where
  "isLineTerminator c = (c = CHR 0x0A \<or> c = CHR 0x0D)"

definition isDigit :: "char \<Rightarrow> bool" where
  "isDigit c = (let n = (of_char c :: nat) in 48 \<le> n \<and> n \<le> 57)"

definition isWord :: "char \<Rightarrow> bool" where
  "isWord c = (let n = (of_char c :: nat) in
     (48 \<le> n \<and> n \<le> 57) \<or> (65 \<le> n \<and> n \<le> 90) \<or> (97 \<le> n \<and> n \<le> 122) \<or> c = CHR ''_'')"

definition isQuote :: "char \<Rightarrow> bool" where
  "isQuote c = (c = CHR 0x27 \<or> c = CHR 0x22)"

text \<open>\<^verbatim>\<open>String.prototype.includes\<close>, \<^verbatim>\<open>startsWith\<close>, \<^verbatim>\<open>endsWith\<close>, \<^verbatim>\<open>trim\<close>.\<close>

fun includesStr :: "string \<Rightarrow> string \<Rightarrow> bool" where
  "includesStr [] sub = (sub = [])"
| "includesStr (c # cs) sub = (prefix sub (c # cs) \<or> includesStr cs sub)"

definition startsWith :: "string \<Rightarrow> string \<Rightarrow> bool" where
  "startsWith s p = prefix p s"

definition endsWith :: "string \<Rightarrow> string \<Rightarrow> bool" where
  "endsWith s p = prefix (rev p) (rev s)"

definition trim :: "string \<Rightarrow> string" where
  "trim s = rev (dropWhile isSpace (rev (dropWhile isSpace s)))"

text \<open>\<^verbatim>\<open>s.split(c)\<close> for a one-character separator: never the empty list.\<close>

fun split :: "char \<Rightarrow> string \<Rightarrow> string list" where
  "split sep [] = [[]]"
| "split sep (c # cs) =
     (if c = sep then [] # split sep cs
      else (case split sep cs of [] \<Rightarrow> [[c]] | w # ws \<Rightarrow> (c # w) # ws))"

text \<open>\<^verbatim>\<open>xs.join(' ')\<close>.\<close>

fun join :: "string \<Rightarrow> string list \<Rightarrow> string" where
  "join sep [] = []"
| "join sep [w] = w"
| "join sep (w # ws) = w @ sep @ join sep ws"

text \<open>\<^verbatim>\<open>v.replace(/^['"]|['"]$/g, '')\<close>: one quote off the front, then one quote off
  the end of what is left.\<close>

definition stripQuotes :: "string \<Rightarrow> string" where
  "stripQuotes s =
     (let s1 = (case s of [] \<Rightarrow> [] | c # cs \<Rightarrow> if isQuote c then cs else s)
      in if s1 \<noteq> [] \<and> isQuote (last s1) then butlast s1 else s1)"

text \<open>\<^verbatim>\<open>toUpperCase\<close> on one character; the model maps the ASCII letters and leaves
  every other character as it is.\<close>

definition toUpperCase :: "char \<Rightarrow> char" where
  "toUpperCase c =
     (case map_of (zip ''abcdefghijklmnopqrstuvwxyz'' ''ABCDEFGHIJKLMNOPQRSTUVWXYZ'') c of
        Some u \<Rightarrow> u
      | None \<Rightarrow> c)"

section \<open>Frontmatter parser (src/sync/parser.ts)\<close>

text \<open>A frontmatter value is a string or an array of strings; an absent key is
  \<^verbatim>\<open>undefined\<close>.\<close>

datatype yval = YStr string | YList "string list"

datatype error = TypeError | D1TypeError | ConstraintError | ForeignKeyError | SyntaxError

datatype doc_type = Agreement | Policy | Proposal | Other

datatype doc_status = Draft | Active | Superseded | Retired

datatype entity_type = Hat | Address | Group

record relationship =
  rel_type :: string
  targetSlug :: string

record scope_entry =
  entityType :: entity_type
  entityId :: string

record ParsedDocument =
  pd_id :: yval
  pd_slug :: string
  pd_type :: doc_type
  pd_title :: yval
  pd_status :: doc_status
  pd_effectiveFrom :: "yval option"
  pd_effectiveTo :: "yval option"
  pd_enactedBy :: "yval option"
  pd_domains :: "string list"
  pd_relationships :: "relationship list"
  pd_scope :: "scope_entry list"

subsection \<open>parseYamlSimple\<close>

text \<open>
  The loop state of \<^verbatim>\<open>parseYamlSimple\<close>. \<open>result\<close> holds the own properties of the
  object under construction. The key \<^verbatim>\<open>__proto__\<close> is no own property: assigning an array
  to it replaces the prototype (\<open>protoIsArray\<close>), assigning a string does nothing, and
  reading it gives the prototype, which is always truthy.
\<close>

record ystate =
  result :: "string \<rightharpoonup> yval"
  protoIsArray :: bool
  currentKey :: "string option"
  currentList :: "string list option"

definition setProp :: "ystate \<Rightarrow> string \<Rightarrow> yval \<Rightarrow> ystate" where
  "setProp st k v =
     (if k = ''__proto__''
      then (case v of YList _ \<Rightarrow> st\<lparr>protoIsArray := True\<rparr> | YStr _ \<Rightarrow> st)
      else st\<lparr>result := (result st)(k \<mapsto> v)\<rparr>)"

text \<open>\<^verbatim>\<open>line.match(/^\s+-\s+/)\<close>; on a match, the line with the match removed.\<close>

definition matchListItem :: "string \<Rightarrow> string option" where
  "matchListItem line =
     (if takeWhile isSpace line = [] then None
      else (case dropWhile isSpace line of
              [] \<Rightarrow> None
            | c # r \<Rightarrow>
                if c = CHR ''-'' \<and> takeWhile isSpace r \<noteq> [] then Some (dropWhile isSpace r)
                else None))"

text \<open>\<^verbatim>\<open>line.match(/^(\w[\w_-]*):\s*(.*)/)\<close>; on a match, the two groups.\<close>

definition isKeyChar :: "char \<Rightarrow> bool" where
  "isKeyChar c = (isWord c \<or> c = CHR ''-'')"

definition matchKeyValue :: "string \<Rightarrow> (string \<times> string) option" where
  "matchKeyValue line =
     (case line of
        [] \<Rightarrow> None
      | c # _ \<Rightarrow>
          if \<not> isWord c then None
          else (case dropWhile isKeyChar line of
                  [] \<Rightarrow> None
                | d # rest \<Rightarrow>
                    if d = CHR '':''
                    then Some (takeWhile isKeyChar line,
                               takeWhile (\<lambda>x. \<not> isLineTerminator x) (dropWhile isSpace rest))
                    else None))"

text \<open>The branch \<^verbatim>\<open>else if (currentKey)\<close> of a list item:
  \<^verbatim>\<open>if (!result[currentKey]) result[currentKey] = []; result[currentKey].push(itemLine)\<close>.
  A non-empty string has no \<^verbatim>\<open>push\<close>: the call raises a TypeError.\<close>

definition pushObjectItem :: "ystate \<Rightarrow> string \<Rightarrow> string \<Rightarrow> error + ystate" where
  "pushObjectItem st k item =
     (if k = ''__proto__'' then (if protoIsArray st then Inr st else Inl TypeError)
      else (case result st k of
              None \<Rightarrow> Inr (setProp st k (YList [item]))
            | Some (YStr s) \<Rightarrow> if s = [] then Inr (setProp st k (YList [item])) else Inl TypeError
            | Some (YList l) \<Rightarrow> Inr (setProp st k (YList (l @ [item])))))"

definition flushList :: "ystate \<Rightarrow> ystate" where
  "flushList st =
     (case (currentList st, currentKey st) of
        (Some l, Some k) \<Rightarrow> setProp st k (YList l)
      | _ \<Rightarrow> st)"

definition yamlLine :: "ystate \<Rightarrow> string \<Rightarrow> error + ystate" where
  "yamlLine st line =
     (case matchListItem line of
        Some rest \<Rightarrow>
          (case currentList st of
             Some l \<Rightarrow>
               (let l' = l @ [trim rest];
                    st1 = st\<lparr>currentList := Some l'\<rparr>
                in Inr (case currentKey st of None \<Rightarrow> st1 | Some k \<Rightarrow> setProp st1 k (YList l')))
           | None \<Rightarrow>
               (case currentKey st of
                  None \<Rightarrow> Inr st
                | Some k \<Rightarrow> pushObjectItem st k (trim rest)))
      | None \<Rightarrow>
          (case matchKeyValue line of
             None \<Rightarrow> Inr st
           | Some (k, v) \<Rightarrow>
               (let st1 = (flushList st)\<lparr>currentList := None, currentKey := Some k\<rparr>;
                    val = trim v
                in if val = [] \<or> val = ''|'' \<or> val = ''>''
                   then Inr (setProp (st1\<lparr>currentList := Some []\<rparr>) k (YList []))
                   else if startsWith val ''['' \<and> endsWith val '']''
                   then Inr (setProp st1 k
                          (YList (map (\<lambda>x. stripQuotes (trim x))
                                      (split (CHR '','') (butlast (tl val))))))
                   else Inr (setProp st1 k (YStr (stripQuotes val))))))"

fun yamlLines :: "ystate \<Rightarrow> string list \<Rightarrow> error + ystate" where
  "yamlLines st [] = Inr st"
| "yamlLines st (l # ls) =
     (case yamlLine st l of Inl e \<Rightarrow> Inl e | Inr st' \<Rightarrow> yamlLines st' ls)"

definition parseYamlSimple :: "string \<Rightarrow> error + (string \<rightharpoonup> yval)" where
  "parseYamlSimple yaml =
     (case yamlLines \<lparr>result = Map.empty, protoIsArray = False,
                      currentKey = None, currentList = None\<rparr>
                     (split (CHR 0x0A) yaml) of
        Inl e \<Rightarrow> Inl e
      | Inr st \<Rightarrow> Inr (result (flushList st)))"

subsection \<open>extractFrontmatter\<close>

text \<open>\<^verbatim>\<open>content.match(/^---\r?\n([\s\S]*?)\r?\n---/)\<close>: the group is the shortest text
  after the opening line that is followed by a line break and three dashes.\<close>

fun frontmatterBody :: "string \<Rightarrow> string option" where
  "frontmatterBody [] = None"
| "frontmatterBody (c # cs) =
     (if prefix [CHR 0x0D, CHR 0x0A, CHR ''-'', CHR ''-'', CHR ''-''] (c # cs)
         \<or> prefix [CHR 0x0A, CHR ''-'', CHR ''-'', CHR ''-''] (c # cs)
      then Some []
      else map_option ((#) c) (frontmatterBody cs))"

definition matchFrontmatter :: "string \<Rightarrow> string option" where
  "matchFrontmatter content =
     (if prefix [CHR ''-'', CHR ''-'', CHR ''-'', CHR 0x0D, CHR 0x0A] content
      then frontmatterBody (drop 5 content)
      else if prefix [CHR ''-'', CHR ''-'', CHR ''-'', CHR 0x0A] content
      then frontmatterBody (drop 4 content)
      else None)"

definition extractFrontmatter :: "string \<Rightarrow> error + (string \<rightharpoonup> yval) option" where
  "extractFrontmatter content =
     (case matchFrontmatter content of
        None \<Rightarrow> Inr None
      | Some yaml \<Rightarrow> (case parseYamlSimple yaml of Inl e \<Rightarrow> Inl e | Inr fm \<Rightarrow> Inr (Some fm)))"

subsection \<open>Normalisation of the fields\<close>

definition normaliseType :: "yval option \<Rightarrow> doc_type" where
  "normaliseType raw =
     (if raw = Some (YStr ''agreement'') then Agreement
      else if raw = Some (YStr ''policy'') then Policy
      else if raw = Some (YStr ''proposal'') then Proposal
      else Other)"

definition normaliseStatus :: "yval option \<Rightarrow> doc_status" where
  "normaliseStatus raw =
     (if raw = Some (YStr ''active'') then Active
      else if raw = Some (YStr ''draft'') then Draft
      else if raw = Some (YStr ''superseded'') then Superseded
      else if raw = Some (YStr ''retired'') then Retired
      else Draft)"

definition normaliseDomains :: "yval \<Rightarrow> string list" where
  "normaliseDomains raw =
     (case raw of
        YStr s \<Rightarrow> if s = [] then [] else [s]
      | YList xs \<Rightarrow> filter (\<lambda>x. x \<noteq> []) xs)"

text \<open>\<^verbatim>\<open>item.match(/^(\w+):\s*(.+)/)\<close>. The last group needs one character that is no
  line terminator, so \<^verbatim>\<open>\s*\<close> gives characters back, longest match first, until the
  group can start.\<close>

fun dotPlusFrom :: "nat \<Rightarrow> string \<Rightarrow> string option" where
  "dotPlusFrom 0 s =
     (let t = takeWhile (\<lambda>x. \<not> isLineTerminator x) s in if t \<noteq> [] then Some t else None)"
| "dotPlusFrom (Suc k) s =
     (let t = takeWhile (\<lambda>x. \<not> isLineTerminator x) (drop (Suc k) s)
      in if t \<noteq> [] then Some t else dotPlusFrom k s)"

definition matchRelationship :: "string \<Rightarrow> (string \<times> string) option" where
  "matchRelationship item =
     (if takeWhile isWord item = [] then None
      else (case dropWhile isWord item of
              [] \<Rightarrow> None
            | d # rest \<Rightarrow>
                if d = CHR '':''
                then map_option (\<lambda>t. (takeWhile isWord item, t))
                       (dotPlusFrom (length (takeWhile isSpace rest)) rest)
                else None))"

text \<open>The frontmatter holds strings and arrays of strings only, so the object branch of
  \<^verbatim>\<open>normaliseRelationships\<close> is never taken.\<close>

definition normaliseRelationships :: "yval \<Rightarrow> relationship list" where
  "normaliseRelationships raw =
     (case raw of
        YStr _ \<Rightarrow> []
      | YList xs \<Rightarrow>
          concat (map (\<lambda>item. case matchRelationship item of
                                 None \<Rightarrow> []
                               | Some (t, g) \<Rightarrow> [\<lparr>rel_type = t, targetSlug = trim g\<rparr>]) xs))"

definition normaliseScope :: "yval \<Rightarrow> scope_entry list" where
  "normaliseScope raw =
     (case raw of
        YStr _ \<Rightarrow> []
      | YList xs \<Rightarrow>
          map (\<lambda>item.
                 if startsWith item ''0x'' then \<lparr>entityType = Address, entityId = item\<rparr>
                 else if item \<noteq> [] \<and> isDigit (hd item) then \<lparr>entityType = Hat, entityId = item\<rparr>
                 else \<lparr>entityType = Group, entityId = item\<rparr>) xs)"

subsection \<open>Slug and title from the path\<close>

definition dropMd :: "string \<Rightarrow> string" where
  "dropMd s = (if endsWith s ''.md'' then take (length s - 3) s else s)"

definition slashToDash :: "string \<Rightarrow> string" where
  "slashToDash s = map (\<lambda>c. if c = CHR ''/'' then CHR ''-'' else c) s"

text \<open>\<^verbatim>\<open>pathToSlug\<close> of the parser: the prefixes \<^verbatim>\<open>agreements/\<close>, \<^verbatim>\<open>policies/\<close> and
  \<^verbatim>\<open>proposals/\<close> are removed.\<close>

definition pathToSlug :: "string \<Rightarrow> string" where
  "pathToSlug path =
     slashToDash (dropMd
       (if startsWith path ''agreements/'' then drop 11 path
        else if startsWith path ''policies/'' then drop 9 path
        else if startsWith path ''proposals/'' then drop 10 path
        else path))"

definition capitalise :: "string \<Rightarrow> string" where
  "capitalise w = (case w of [] \<Rightarrow> [] | c # cs \<Rightarrow> toUpperCase c # cs)"

definition titleFromPath :: "string \<Rightarrow> string" where
  "titleFromPath path = join '' '' (map capitalise (split (CHR ''-'') (pathToSlug path)))"

subsection \<open>parseGovernanceDocument\<close>

text \<open>\<^verbatim>\<open>a ?? b\<close> on a property that is never \<^verbatim>\<open>null\<close>.\<close>

definition orElse :: "'a option \<Rightarrow> 'a option \<Rightarrow> 'a option" where
  "orElse a b = (case a of Some x \<Rightarrow> Some x | None \<Rightarrow> b)"

definition isExcludedPath :: "string \<Rightarrow> bool" where
  "isExcludedPath path =
     (includesStr path ''README'' \<or> includesStr path ''template'' \<or> includesStr path ''_'')"

definition buildDocument :: "string \<Rightarrow> (string \<rightharpoonup> yval) \<Rightarrow> ParsedDocument" where
  "buildDocument path fm =
     \<lparr>pd_id = (case fm ''id'' of Some v \<Rightarrow> v | None \<Rightarrow> YStr (pathToSlug path)),
      pd_slug = pathToSlug path,
      pd_type = normaliseType (fm ''type''),
      pd_title = (case fm ''title'' of Some v \<Rightarrow> v | None \<Rightarrow> YStr (titleFromPath path)),
      pd_status = normaliseStatus (fm ''status''),
      pd_effectiveFrom = orElse (fm ''effective_from'') (fm ''effectiveFrom''),
      pd_effectiveTo = orElse (fm ''effective_to'') (fm ''effectiveTo''),
      pd_enactedBy = orElse (fm ''enacted_by'') (fm ''enactedBy''),
      pd_domains =
        normaliseDomains (case orElse (fm ''domain'') (fm ''domains'') of
                            Some v \<Rightarrow> v | None \<Rightarrow> YList []),
      pd_relationships =
        normaliseRelationships (case orElse (fm ''related'') (fm ''relationships'') of
                                  Some v \<Rightarrow> v | None \<Rightarrow> YList []),
      pd_scope = normaliseScope (case fm ''scope'' of Some v \<Rightarrow> v | None \<Rightarrow> YList [])\<rparr>"

text \<open>The result is \<open>Inr None\<close> for \<^verbatim>\<open>null\<close> (not indexed), \<open>Inr (Some d)\<close> for a record and
  \<open>Inl e\<close> when the call raises.\<close>

definition parseGovernanceDocument :: "string \<Rightarrow> string \<Rightarrow> error + ParsedDocument option" where
  "parseGovernanceDocument path content =
     (if isExcludedPath path then Inr None
      else (case extractFrontmatter content of
              Inl e \<Rightarrow> Inl e
            | Inr None \<Rightarrow> Inr None
            | Inr (Some fm) \<Rightarrow> Inr (Some (buildDocument path fm))))"

section \<open>Relational store (\<^verbatim>\<open>migrations/0001_initial.sql\<close>)\<close>

text \<open>
  A table is the list of its rows in insertion order. The columns that take a bound
  frontmatter value hold that value; \<open>None\<close> is SQL \<^verbatim>\<open>NULL\<close>. Times are the clock readings
  that \<^verbatim>\<open>datetime('now')\<close> gives, one reading for each step.
\<close>

record document_row =
  doc_id :: yval
  doc_slug :: string
  doc_type :: doc_type
  doc_title :: yval
  doc_status :: doc_status
  doc_effective_from :: "yval option"
  doc_effective_to :: "yval option"
  doc_content_hash :: "string option"
  doc_enacted_by :: "yval option"
  doc_r2_key :: "string option"
  doc_created_at :: nat
  doc_updated_at :: nat

datatype domain_type = Entity | TrustZone | GovernanceFunction

record domain_row =
  dom_id :: string
  dom_slug :: string
  dom_name :: string
  dom_type :: domain_type

record relationship_row =
  rr_id :: string
  rr_from_id :: yval
  rr_to_id :: yval
  rr_relationship_type :: string
  rr_created_at :: nat

record database =
  documents :: "document_row list"
  domains :: "domain_row list"
  document_domains :: "(yval \<times> string) list"
  document_relationships :: "relationship_row list"

text \<open>The rows that the migration seeds into \<^verbatim>\<open>domains\<close>.\<close>

definition seedDomains :: "domain_row list" where
  "seedDomains =
     [\<lparr>dom_id = ''dom-metagov'', dom_slug = ''metagovernance'', dom_name = ''Metagovernance'',
       dom_type = GovernanceFunction\<rparr>,
      \<lparr>dom_id = ''dom-operations'', dom_slug = ''operations'', dom_name = ''Operations'',
       dom_type = GovernanceFunction\<rparr>,
      \<lparr>dom_id = ''dom-platforms'', dom_slug = ''platforms'',
       dom_name = ''Platform Administration'', dom_type = GovernanceFunction\<rparr>,
      \<lparr>dom_id = ''dom-dao-core'', dom_slug = ''dao-core'', dom_name = ''DAO Core'',
       dom_type = Entity\<rparr>,
      \<lparr>dom_id = ''dom-treasury'', dom_slug = ''treasury'', dom_name = ''Treasury'',
       dom_type = GovernanceFunction\<rparr>]"

definition initialDatabase :: database where
  "initialDatabase =
     \<lparr>documents = [], domains = seedDomains, document_domains = [],
      document_relationships = []\<rparr>"

text \<open>The closed vocabulary of the \<^verbatim>\<open>CHECK\<close> on \<^verbatim>\<open>relationship_type\<close>.\<close>

definition relationshipTypes :: "string list" where
  "relationshipTypes =
     [''authorized_by'', ''implements'', ''supersedes'', ''references'', ''evaluates'',
      ''fulfills'']"

text \<open>
  Two settings belong to the database connection and not to the repository, so the
  model takes them as parameters: whether the \<^verbatim>\<open>REFERENCES\<close> clauses are enforced, and
  which JavaScript values \<^verbatim>\<open>bind\<close> accepts (it raises on the others).
\<close>

record engine =
  foreignKeys :: bool
  bindable :: "yval \<Rightarrow> bool"

definition bindableOpt :: "engine \<Rightarrow> yval option \<Rightarrow> bool" where
  "bindableOpt eng v = (case v of None \<Rightarrow> True | Some x \<Rightarrow> bindable eng x)"

text \<open>Template-literal conversion \<^verbatim>\<open>`${v}`\<close> of a string or an array of strings.\<close>

definition jsToString :: "yval \<Rightarrow> string" where
  "jsToString v = (case v of YStr s \<Rightarrow> s | YList xs \<Rightarrow> join '','' xs)"

definition hasDocumentId :: "document_row list \<Rightarrow> yval \<Rightarrow> bool" where
  "hasDocumentId docs i = list_ex (\<lambda>r. doc_id r = i) docs"

definition hasSlug :: "document_row list \<Rightarrow> string \<Rightarrow> bool" where
  "hasSlug docs s = list_ex (\<lambda>r. doc_slug r = s) docs"

section \<open>Sync workflow (src/sync/workflow.ts)\<close>

text \<open>
  Every statement is committed when it has run. A call that writes to a store and may
  raise therefore gives either the store it leaves behind (\<open>Inr\<close>) or the error together
  with the store at the moment of the raise (\<open>Inl\<close>).
\<close>

type_synonym 'a outcome = "(error \<times> 'a) + 'a"

definition outcomeState :: "'a outcome \<Rightarrow> 'a" where
  "outcomeState r = (case r of Inl (e, s) \<Rightarrow> s | Inr s \<Rightarrow> s)"

subsection \<open>upsertDocument\<close>

text \<open>The \<^verbatim>\<open>DO UPDATE SET\<close> list of the first statement.\<close>

definition conflictUpdate :: "nat \<Rightarrow> ParsedDocument \<Rightarrow> string \<Rightarrow> document_row \<Rightarrow> document_row" where
  "conflictUpdate now p r2Key r =
     r\<lparr>doc_title := pd_title p,
       doc_status := pd_status p,
       doc_effective_from := pd_effectiveFrom p,
       doc_effective_to := pd_effectiveTo p,
       doc_enacted_by := pd_enactedBy p,
       doc_r2_key := Some r2Key,
       doc_updated_at := now\<rparr>"

definition insertedRow :: "nat \<Rightarrow> ParsedDocument \<Rightarrow> string \<Rightarrow> document_row" where
  "insertedRow now p r2Key =
     \<lparr>doc_id = pd_id p, doc_slug = pd_slug p, doc_type = pd_type p, doc_title = pd_title p,
      doc_status = pd_status p, doc_effective_from = pd_effectiveFrom p,
      doc_effective_to = pd_effectiveTo p, doc_content_hash = None,
      doc_enacted_by = pd_enactedBy p, doc_r2_key = Some r2Key,
      doc_created_at = now, doc_updated_at = now\<rparr>"

text \<open>
  \<^verbatim>\<open>INSERT INTO documents ... ON CONFLICT(slug) DO UPDATE SET ...\<close>. A row with the slug
  turns the insert into the update; otherwise a row with the same primary key aborts
  the statement.
\<close>

definition upsertDocumentRow ::
  "engine \<Rightarrow> nat \<Rightarrow> ParsedDocument \<Rightarrow> string \<Rightarrow> document_row list \<Rightarrow> error + document_row list" where
  "upsertDocumentRow eng now p r2Key docs =
     (if \<not> (bindable eng (pd_id p) \<and> bindable eng (pd_title p)
             \<and> bindableOpt eng (pd_effectiveFrom p) \<and> bindableOpt eng (pd_effectiveTo p)
             \<and> bindableOpt eng (pd_enactedBy p))
      then Inl D1TypeError
      else if hasSlug docs (pd_slug p)
      then Inr (map (\<lambda>r. if doc_slug r = pd_slug p then conflictUpdate now p r2Key r else r) docs)
      else if hasDocumentId docs (pd_id p) then Inl ConstraintError
      else Inr (docs @ [insertedRow now p r2Key]))"

text \<open>\<^verbatim>\<open>INSERT OR IGNORE INTO document_domains\<close>: an existing pair is skipped; a foreign
  key that points nowhere is no conflict that \<^verbatim>\<open>OR IGNORE\<close> covers.\<close>

definition insertDocumentDomain :: "engine \<Rightarrow> yval \<Rightarrow> string \<Rightarrow> database \<Rightarrow> database outcome" where
  "insertDocumentDomain eng i did db =
     (if \<not> bindable eng i then Inl (D1TypeError, db)
      else if (i, did) \<in> set (document_domains db) then Inr db
      else if foreignKeys eng
              \<and> \<not> (hasDocumentId (documents db) i \<and> list_ex (\<lambda>d. dom_id d = did) (domains db))
      then Inl (ForeignKeyError, db)
      else Inr (db\<lparr>document_domains := document_domains db @ [(i, did)]\<rparr>))"

fun upsertDomains :: "engine \<Rightarrow> yval \<Rightarrow> string list \<Rightarrow> database \<Rightarrow> database outcome" where
  "upsertDomains eng i [] db = Inr db"
| "upsertDomains eng i (s # ss) db =
     (case find (\<lambda>d. dom_slug d = s) (domains db) of
        None \<Rightarrow> upsertDomains eng i ss db
      | Some d \<Rightarrow>
          (case insertDocumentDomain eng i (dom_id d) db of
             Inl e \<Rightarrow> Inl e
           | Inr db' \<Rightarrow> upsertDomains eng i ss db'))"

definition relationshipId :: "yval \<Rightarrow> string \<Rightarrow> yval \<Rightarrow> string" where
  "relationshipId i ty tid = jsToString i @ '':'' @ ty @ '':'' @ jsToString tid"

text \<open>\<^verbatim>\<open>INSERT OR IGNORE INTO document_relationships\<close>: a row with the same id, or a type
  outside the vocabulary, is skipped.\<close>

definition insertRelationship ::
  "engine \<Rightarrow> nat \<Rightarrow> yval \<Rightarrow> string \<Rightarrow> yval \<Rightarrow> database \<Rightarrow> database outcome" where
  "insertRelationship eng now i ty tid db =
     (if \<not> (bindable eng i \<and> bindable eng tid) then Inl (D1TypeError, db)
      else if list_ex (\<lambda>r. rr_id r = relationshipId i ty tid) (document_relationships db)
              \<or> ty \<notin> set relationshipTypes
      then Inr db
      else if foreignKeys eng
              \<and> \<not> (hasDocumentId (documents db) i \<and> hasDocumentId (documents db) tid)
      then Inl (ForeignKeyError, db)
      else Inr (db\<lparr>document_relationships := document_relationships db @
                  [\<lparr>rr_id = relationshipId i ty tid, rr_from_id = i, rr_to_id = tid,
                    rr_relationship_type = ty, rr_created_at = now\<rparr>]\<rparr>))"

fun upsertRelationships ::
  "engine \<Rightarrow> nat \<Rightarrow> yval \<Rightarrow> relationship list \<Rightarrow> database \<Rightarrow> database outcome" where
  "upsertRelationships eng now i [] db = Inr db"
| "upsertRelationships eng now i (rel # rels) db =
     (case find (\<lambda>r. doc_slug r = targetSlug rel) (documents db) of
        None \<Rightarrow> upsertRelationships eng now i rels db
      | Some target \<Rightarrow>
          (case insertRelationship eng now i (rel_type rel) (doc_id target) db of
             Inl e \<Rightarrow> Inl e
           | Inr db' \<Rightarrow> upsertRelationships eng now i rels db'))"

definition upsertDocument ::
  "engine \<Rightarrow> nat \<Rightarrow> database \<Rightarrow> ParsedDocument \<Rightarrow> string \<Rightarrow> database outcome" where
  "upsertDocument eng now db p r2Key =
     (case upsertDocumentRow eng now p r2Key (documents db) of
        Inl e \<Rightarrow> Inl (e, db)
      | Inr docs \<Rightarrow>
          (case upsertDomains eng (pd_id p) (pd_domains p) (db\<lparr>documents := docs\<rparr>) of
             Inl e \<Rightarrow> Inl e
           | Inr db1 \<Rightarrow> upsertRelationships eng now (pd_id p) (pd_relationships p) db1))"

subsection \<open>deleteDocument\<close>

text \<open>\<^verbatim>\<open>pathToSlug\<close> of the workflow file: only \<^verbatim>\<open>agreements/\<close> and \<^verbatim>\<open>policies/\<close> are
  removed.\<close>

definition workflow_pathToSlug :: "string \<Rightarrow> string" where
  "workflow_pathToSlug path =
     slashToDash (dropMd
       (if startsWith path ''agreements/'' then drop 11 path
        else if startsWith path ''policies/'' then drop 9 path
        else path))"

definition deleteDocument :: "nat \<Rightarrow> database \<Rightarrow> string \<Rightarrow> database" where
  "deleteDocument now db path =
     db\<lparr>documents :=
          map (\<lambda>r. if doc_slug r = workflow_pathToSlug path
                   then r\<lparr>doc_status := Retired, doc_updated_at := now\<rparr> else r)
              (documents db)\<rparr>"

subsection \<open>The steps of a run\<close>

record r2_object =
  r2_body :: string
  r2_commitSha :: string
  r2_syncedAt :: nat

record store =
  content_mirror :: "string \<rightharpoonup> r2_object"
  graph :: database

text \<open>The step \<^verbatim>\<open>sync-file:${path}\<close>; \<open>Inl\<close> is a step that raised, after the write to
  the mirror.\<close>

definition syncFile ::
  "engine \<Rightarrow> nat \<Rightarrow> string \<Rightarrow> store \<Rightarrow> string \<Rightarrow> string \<Rightarrow> store outcome" where
  "syncFile eng now sha st path content =
     (let r2Key = ''governance/'' @ path;
          st1 = st\<lparr>content_mirror := (content_mirror st)
                   (r2Key \<mapsto> \<lparr>r2_body = content, r2_commitSha = sha, r2_syncedAt = now\<rparr>)\<rparr>
      in case parseGovernanceDocument path content of
           Inl e \<Rightarrow> Inl (e, st1)
         | Inr None \<Rightarrow> Inr st1
         | Inr (Some parsed) \<Rightarrow>
             (case upsertDocument eng now (graph st1) parsed r2Key of
                Inl (e, db') \<Rightarrow> Inl (e, st1\<lparr>graph := db'\<rparr>)
              | Inr db' \<Rightarrow> Inr (st1\<lparr>graph := db'\<rparr>)))"

text \<open>The step \<^verbatim>\<open>delete-file:${path}\<close>.\<close>

definition deleteFile :: "nat \<Rightarrow> store \<Rightarrow> string \<Rightarrow> store" where
  "deleteFile now st path =
     st\<lparr>content_mirror := (content_mirror st)((''governance/'' @ path) := None),
        graph := deleteDocument now (graph st) path\<rparr>"

text \<open>The rows of \<^verbatim>\<open>documents\<close> with a given slug; a step run on the outcome of an earlier
  step (a run stops at a step that raised); the rows to be seen after a sequence of
  steps that all returned.\<close>

definition rowsWithSlug :: "store \<Rightarrow> string \<Rightarrow> document_row list" where
  "rowsWithSlug st slug = filter (\<lambda>r. doc_slug r = slug) (documents (graph st))"

definition thenSync ::
  "engine \<Rightarrow> nat \<Rightarrow> string \<Rightarrow> store outcome \<Rightarrow> string \<Rightarrow> string \<Rightarrow> store outcome" where
  "thenSync eng now sha r path content =
     (case r of Inl e \<Rightarrow> Inl e | Inr st \<Rightarrow> syncFile eng now sha st path content)"

definition thenDelete :: "nat \<Rightarrow> store outcome \<Rightarrow> string \<Rightarrow> store outcome" where
  "thenDelete now r path = (case r of Inl e \<Rightarrow> Inl e | Inr st \<Rightarrow> Inr (deleteFile now st path))"

definition storedRows :: "store outcome \<Rightarrow> string \<Rightarrow> document_row list" where
  "storedRows r slug = (case r of Inl e \<Rightarrow> [] | Inr st \<Rightarrow> rowsWithSlug st slug)"

definition storedEdges :: "store outcome \<Rightarrow> relationship_row list" where
  "storedEdges r = (case r of Inl e \<Rightarrow> [] | Inr st \<Rightarrow> document_relationships (graph st))"

definition parsedRelationships :: "string \<Rightarrow> string \<Rightarrow> relationship list option" where
  "parsedRelationships path content =
     (case parseGovernanceDocument path content of
        Inr (Some p) \<Rightarrow> Some (pd_relationships p)
      | _ \<Rightarrow> None)"

definition parsedSlug :: "string \<Rightarrow> string \<Rightarrow> string option" where
  "parsedSlug path content =
     (case parseGovernanceDocument path content of
        Inr (Some p) \<Rightarrow> Some (pd_slug p)
      | _ \<Rightarrow> None)"

section \<open>Read queries (src/data/db.ts)\<close>

record DocumentWithDomains =
  dwd_document :: document_row
  dwd_domains :: "domain_row list"
  dwd_relationships :: "relationship_row list"

definition queryDocumentDomains :: "database \<Rightarrow> yval \<Rightarrow> domain_row list" where
  "queryDocumentDomains db documentId =
     concat (map (\<lambda>dd. if fst dd = documentId
                        then filter (\<lambda>dom. dom_id dom = snd dd) (domains db) else [])
                 (document_domains db))"

definition queryDocumentRelationships :: "database \<Rightarrow> yval \<Rightarrow> relationship_row list" where
  "queryDocumentRelationships db documentId =
     filter (\<lambda>r. rr_from_id r = documentId \<or> rr_to_id r = documentId)
            (document_relationships db)"

text \<open>\<^verbatim>\<open>queryAgreementDetail\<close> and \<^verbatim>\<open>queryPolicyDetail\<close> differ in the type they select;
  \<open>None\<close> is \<^verbatim>\<open>null\<close>, which the routes answer with "not found". When several rows
  match, \<^verbatim>\<open>first\<close> is taken in the order of the table, which the database need not
  follow.\<close>

definition queryDetail :: "doc_type \<Rightarrow> database \<Rightarrow> string \<Rightarrow> DocumentWithDomains option" where
  "queryDetail ty db idOrSlug =
     (case find (\<lambda>r. (doc_id r = YStr idOrSlug \<or> doc_slug r = idOrSlug) \<and> doc_type r = ty)
                (documents db) of
        None \<Rightarrow> None
      | Some doc \<Rightarrow>
          Some \<lparr>dwd_document = doc,
                dwd_domains = queryDocumentDomains db (doc_id doc),
                dwd_relationships = queryDocumentRelationships db (doc_id doc)\<rparr>)"

definition queryAgreementDetail :: "database \<Rightarrow> string \<Rightarrow> DocumentWithDomains option" where
  "queryAgreementDetail = queryDetail Agreement"

definition queryPolicyDetail :: "database \<Rightarrow> string \<Rightarrow> DocumentWithDomains option" where
  "queryPolicyDetail = queryDetail Policy"

section \<open>Key-value namespaces with expiry\<close>

text \<open>
  A namespace maps a key to its value and the time (milliseconds) at which the entry
  expires; \<^verbatim>\<open>put\<close> with \<^verbatim>\<open>expirationTtl\<close> seconds sets that time, \<^verbatim>\<open>get\<close> sees an entry
  until then. Reads see the latest write, and every TTL is accepted (the sources use
  none below the platform's minimum of 60 seconds).
\<close>

type_synonym kv = "string \<rightharpoonup> (string \<times> nat)"

definition kvGet :: "kv \<Rightarrow> nat \<Rightarrow> string \<Rightarrow> string option" where
  "kvGet m now k = (case m k of None \<Rightarrow> None | Some (v, e) \<Rightarrow> if now < e then Some v else None)"

definition kvPut :: "kv \<Rightarrow> nat \<Rightarrow> string \<Rightarrow> string \<Rightarrow> nat \<Rightarrow> kv" where
  "kvPut m now k v ttl = m(k \<mapsto> (v, now + ttl * 1000))"

text \<open>\<^verbatim>\<open>n.toString()\<close> of a non-negative integer and \<^verbatim>\<open>parseInt(s, 10)\<close>; \<open>None\<close> is
  \<^verbatim>\<open>NaN\<close>. The integers are exact, as JavaScript numbers are up to \<open>2 ^ 53\<close>.\<close>

definition digitChar :: "nat \<Rightarrow> char" where
  "digitChar d = char_of (48 + d)"

fun natToString :: "nat \<Rightarrow> string" where
  "natToString n = (if n < 10 then [digitChar n] else natToString (n div 10) @ [digitChar (n mod 10)])"

declare natToString.simps [simp del]

definition digitsValue :: "string \<Rightarrow> nat" where
  "digitsValue ds = foldl (\<lambda>acc c. 10 * acc + (of_char c - 48)) 0 ds"

definition parseInt :: "string \<Rightarrow> int option" where
  "parseInt s =
     (let s1 = dropWhile isSpace s;
          neg = (s1 \<noteq> [] \<and> hd s1 = CHR ''-'');
          s2 = (if s1 \<noteq> [] \<and> (hd s1 = CHR ''-'' \<or> hd s1 = CHR ''+'') then tl s1 else s1);
          ds = takeWhile isDigit s2
      in if ds = [] then None
         else Some (if neg then - int (digitsValue ds) else int (digitsValue ds)))"

section \<open>Webhook intake (src/sync/github.ts, src/index.ts)\<close>

definition timingSafeEqual :: "string \<Rightarrow> string \<Rightarrow> bool" where
  "timingSafeEqual a b =
     (if length a \<noteq> length b then False
      else foldl (\<lambda>res (x, y). res OR ((of_char x :: nat) XOR of_char y)) 0 (zip a b) = 0)"

definition hexDigit :: "nat \<Rightarrow> char" where
  "hexDigit d = (if d < 10 then char_of (48 + d) else char_of (87 + d))"

definition hexByte :: "nat \<Rightarrow> string" where
  "hexByte b = [hexDigit (b div 16), hexDigit (b mod 16)]"

text \<open>\<^verbatim>\<open>verifyWebhookSignature\<close>; the HMAC-SHA256 of the platform is the parameter
  \<open>hmac\<close>, from the secret and the body to the bytes of the code.\<close>

definition verifyWebhookSignature ::
  "(string \<Rightarrow> string \<Rightarrow> nat list) \<Rightarrow> string \<Rightarrow> string option \<Rightarrow> string \<Rightarrow> bool" where
  "verifyWebhookSignature hmac body signature secret =
     (case signature of
        None \<Rightarrow> False
      | Some sg \<Rightarrow>
          if sg = [] \<or> \<not> startsWith sg ''sha256='' then False
          else timingSafeEqual sg (''sha256='' @ concat (map hexByte (hmac secret body))))"

record commit =
  c_id :: string
  c_message :: string
  c_added :: "string list"
  c_modified :: "string list"
  c_removed :: "string list"

record GitHubPushEvent =
  pe_ref :: string
  pe_after :: string
  pe_before :: string
  pe_commits :: "commit list"

record SyncParams =
  changedFiles :: "string list"
  deletedFiles :: "string list"
  commitSha :: string

datatype response =
    InvalidSignature
  | Duplicate string
  | Ignored string
  | Accepted nat nat

record request =
  req_body :: string
  req_signature :: "string option"
  req_deliveryId :: "string option"

text \<open>The worker's share of the world: the \<^verbatim>\<open>SYNC_STATE\<close> namespace and the workflow
  instances created so far.\<close>

record worker =
  sync_state :: kv
  dispatched :: "SyncParams list"

text \<open>\<^verbatim>\<open>[...new Set(xs)]\<close>: the first occurrence of each element, in order.\<close>

fun uniqueFrom :: "string list \<Rightarrow> string list \<Rightarrow> string list" where
  "uniqueFrom seen [] = []"
| "uniqueFrom seen (x # xs) =
     (if x \<in> set seen then uniqueFrom seen xs else x # uniqueFrom (x # seen) xs)"

definition unique :: "string list \<Rightarrow> string list" where
  "unique xs = uniqueFrom [] xs"

text \<open>The markdown paths that a push adds or modifies, and those that it removes, each
  once.\<close>

definition uniqueChanged :: "GitHubPushEvent \<Rightarrow> string list" where
  "uniqueChanged payload =
     unique (filter (\<lambda>f. endsWith f ''.md'')
               (concat (map (\<lambda>c. c_added c @ c_modified c) (pe_commits payload))))"

definition uniqueDeleted :: "GitHubPushEvent \<Rightarrow> string list" where
  "uniqueDeleted payload =
     unique (filter (\<lambda>f. endsWith f ''.md'') (concat (map c_removed (pe_commits payload))))"

text \<open>The parameters of the workflow instance that \<^verbatim>\<open>handleWebhook\<close> creates.\<close>

definition syncParamsOf :: "GitHubPushEvent \<Rightarrow> SyncParams" where
  "syncParamsOf payload =
     \<lparr>changedFiles = uniqueChanged payload, deletedFiles = uniqueDeleted payload,
      commitSha = pe_after payload\<rparr>"

text \<open>The part of \<^verbatim>\<open>handleWebhook\<close> after the replay check. \<open>parse\<close> is
  \<^verbatim>\<open>JSON.parse\<close> read at the payload type, \<open>None\<close> when it raises; a body that parses
  to a value of another shape than \<^verbatim>\<open>GitHubPushEvent\<close> is not covered.\<close>

definition processPush ::
  "(string \<Rightarrow> GitHubPushEvent option) \<Rightarrow> worker \<Rightarrow> string \<Rightarrow> (error + response) \<times> worker" where
  "processPush parse w body =
     (case parse body of
        None \<Rightarrow> (Inl SyntaxError, w)
      | Some payload \<Rightarrow>
          if pe_ref payload \<noteq> ''refs/heads/main''
          then (Inr (Ignored ''not main branch''), w)
          else if uniqueChanged payload = [] \<and> uniqueDeleted payload = []
          then (Inr (Ignored ''no markdown files changed''), w)
          else (Inr (Accepted (length (uniqueChanged payload)) (length (uniqueDeleted payload))),
                w\<lparr>dispatched := dispatched w @ [syncParamsOf payload]\<rparr>))"

definition handleWebhook ::
  "(string \<Rightarrow> string \<Rightarrow> nat list) \<Rightarrow> (string \<Rightarrow> GitHubPushEvent option) \<Rightarrow> string \<Rightarrow> nat \<Rightarrow>
   worker \<Rightarrow> request \<Rightarrow> (error + response) \<times> worker" where
  "handleWebhook hmac parse secret now w req =
     (if \<not> verifyWebhookSignature hmac (req_body req) (req_signature req) secret
      then (Inr InvalidSignature, w)
      else
        (case req_deliveryId req of
           None \<Rightarrow> processPush parse w (req_body req)
         | Some deliveryId \<Rightarrow>
             if deliveryId = [] then processPush parse w (req_body req)
             else
               (let nonceKey = ''webhook:'' @ deliveryId
                in case kvGet (sync_state w) now nonceKey of
                     None \<Rightarrow>
                       processPush parse
                         (w\<lparr>sync_state := kvPut (sync_state w) now nonceKey (natToString now) 86400\<rparr>)
                         (req_body req)
                   | Some existing \<Rightarrow>
                       if existing \<noteq> [] then (Inr (Duplicate deliveryId), w)
                       else processPush parse
                              (w\<lparr>sync_state := kvPut (sync_state w) now nonceKey (natToString now) 86400\<rparr>)
                              (req_body req))))"

text \<open>The worker handles deliveries one after the other; each comes with the time at
  which it is handled.\<close>

fun handleDeliveries ::
  "(string \<Rightarrow> string \<Rightarrow> nat list) \<Rightarrow> (string \<Rightarrow> GitHubPushEvent option) \<Rightarrow> string \<Rightarrow>
   worker \<Rightarrow> (nat \<times> request) list \<Rightarrow> worker" where
  "handleDeliveries hmac parse secret w [] = w"
| "handleDeliveries hmac parse secret w ((t, req) # rest) =
     handleDeliveries hmac parse secret (snd (handleWebhook hmac parse secret t w req)) rest"

section \<open>Cache refresh (src/data/kv-cache.ts and the data sources)\<close>

text \<open>
  The \<^verbatim>\<open>GOVERNANCE_CACHE\<close> namespace, the keys whose fetcher \<^verbatim>\<open>refreshIfDue\<close> has called
  so far, and the upstream sources that have been queried so far.
\<close>

record cache_state =
  cache :: kv
  fetched :: "string list"
  queried :: "string list"

text \<open>
  What the upstream sources answer during one cycle; \<open>None\<close> is a query that raises. A
  value is the JSON text that \<^verbatim>\<open>JSON.stringify\<close> gives for it, and \<^verbatim>\<open>JSON.parse\<close> of a
  cached text gives the value back. \<open>src_hats\<close> may also answer \<^verbatim>\<open>null\<close> (\<open>Some None\<close>).
  \<open>src_ensProfiles\<close> is the profile map that \<^verbatim>\<open>resolveEnsProfiles\<close> stores when a holder
  has no cached profile, and \<open>src_activeGroups\<close> is the filter on the status
  \<^verbatim>\<open>active\<close>, on the text of a list of groups.
\<close>

record sources =
  src_members :: "string option"
  src_ensProfiles :: "string option"
  src_snapshot :: "string option"
  src_hats :: "string option option"
  src_groups :: "string option"
  src_activeGroups :: "string \<Rightarrow> string"

text \<open>A fetcher runs at a time on a state; it gives its value, or \<open>None\<close> when it raises,
  and the state it leaves.\<close>

type_synonym fetcher = "nat \<Rightarrow> cache_state \<Rightarrow> string option \<times> cache_state"

text \<open>\<^verbatim>\<open>if (cached)\<close> on the result of \<^verbatim>\<open>get\<close>.\<close>

definition cachedValue :: "cache_state \<Rightarrow> nat \<Rightarrow> string \<Rightarrow> string option" where
  "cachedValue st now key =
     (case kvGet (cache st) now key of
        None \<Rightarrow> None
      | Some v \<Rightarrow> if v = [] then None else Some v)"

definition queryUpstream :: "string \<Rightarrow> cache_state \<Rightarrow> cache_state" where
  "queryUpstream source st = st\<lparr>queried := queried st @ [source]\<rparr>"

definition cachePut :: "string \<Rightarrow> string \<Rightarrow> nat \<Rightarrow> nat \<Rightarrow> cache_state \<Rightarrow> cache_state" where
  "cachePut key v ttl now st = st\<lparr>cache := kvPut (cache st) now key v ttl\<rparr>"

text \<open>\<^verbatim>\<open>buildMembersPayload\<close> (sprb.ts) goes to the chain and resolves the profiles.\<close>

definition buildMembersPayload :: "sources \<Rightarrow> fetcher" where
  "buildMembersPayload src now st =
     (case src_members src of
        None \<Rightarrow> (None, queryUpstream ''chain'' st)
      | Some payload \<Rightarrow>
          (Some payload,
           (case src_ensProfiles src of
              None \<Rightarrow> queryUpstream ''chain'' st
            | Some profiles \<Rightarrow>
                cachePut ''ens:profiles'' profiles (24 * 60 * 60) now (queryUpstream ''chain'' st))))"

text \<open>\<^verbatim>\<open>fetchProposals(env, {})\<close> and \<^verbatim>\<open>fetchActivity(env, {})\<close> (snapshot.ts): the cached
  value when there is one, the source otherwise.\<close>

definition fetchProposals :: "sources \<Rightarrow> fetcher" where
  "fetchProposals src now st =
     (case cachedValue st now ''daoip2:proposals'' of
        Some cached \<Rightarrow> (Some cached, st)
      | None \<Rightarrow>
          (case src_snapshot src of
             None \<Rightarrow> (None, queryUpstream ''snapshot'' st)
           | Some proposals \<Rightarrow>
               (Some proposals,
                cachePut ''daoip2:proposals'' proposals (15 * 60) now (queryUpstream ''snapshot'' st))))"

definition fetchActivity :: "sources \<Rightarrow> fetcher" where
  "fetchActivity src now st =
     (case cachedValue st now ''daoip2:activity'' of
        Some cached \<Rightarrow> (Some cached, st)
      | None \<Rightarrow> (Some ''[]'', cachePut ''daoip2:activity'' ''[]'' (15 * 60) now st))"

text \<open>\<^verbatim>\<open>fetchRoles(env)\<close> (hats.ts).\<close>

definition fetchRoles :: "sources \<Rightarrow> fetcher" where
  "fetchRoles src now st =
     (case cachedValue st now ''sb:roles'' of
        Some cached \<Rightarrow> (Some cached, st)
      | None \<Rightarrow>
          (case src_hats src of
             None \<Rightarrow> (None, queryUpstream ''hats'' st)
           | Some None \<Rightarrow> (Some ''[]'', queryUpstream ''hats'' st)
           | Some (Some tree) \<Rightarrow>
               (Some tree, cachePut ''sb:roles'' tree (30 * 60) now (queryUpstream ''hats'' st))))"

text \<open>\<^verbatim>\<open>fetchGroups(env)\<close> (groups.ts).\<close>

definition fetchGroups :: "sources \<Rightarrow> fetcher" where
  "fetchGroups src now st =
     (case cachedValue st now ''sb:groups'' of
        Some cached \<Rightarrow> (Some (src_activeGroups src cached), st)
      | None \<Rightarrow>
          (case src_groups src of
             None \<Rightarrow> (None, queryUpstream ''github'' st)
           | Some groups \<Rightarrow>
               (Some (src_activeGroups src groups),
                cachePut ''sb:groups'' groups (2 * 60 * 60) now (queryUpstream ''github'' st))))"

text \<open>\<^verbatim>\<open>refreshIfDue\<close>: a fetcher that raises is caught, and what it has written
  stays.\<close>

definition refreshIfDue ::
  "cache_state \<Rightarrow> string \<Rightarrow> nat \<Rightarrow> nat \<Rightarrow> bool \<Rightarrow> fetcher \<Rightarrow> cache_state" where
  "refreshIfDue st key ttlSeconds now force fetcher =
     (let lastRunKey = ''lastrun:'' @ key;
          notDue =
            (\<not> force \<and>
             (case kvGet (cache st) now lastRunKey of
                None \<Rightarrow> False
              | Some lastRun \<Rightarrow>
                  lastRun \<noteq> [] \<and>
                  (case parseInt lastRun of
                     None \<Rightarrow> False
                   | Some l \<Rightarrow> int now - l < int (ttlSeconds * 1000))))
      in if notDue then st
         else
           (case fetcher now (st\<lparr>fetched := fetched st @ [key]\<rparr>) of
              (None, st1) \<Rightarrow> st1
            | (Some v, st1) \<Rightarrow>
                cachePut lastRunKey (natToString now) (ttlSeconds * 2) now
                  (cachePut key v (ttlSeconds * 2) now st1)))"

text \<open>\<^verbatim>\<open>runCacheRefresh\<close>, with the TTL table of the file. The five refreshes touch
  different keys; the model runs them in the order of the source.\<close>

definition runCacheRefresh :: "sources \<Rightarrow> cache_state \<Rightarrow> nat \<Rightarrow> bool \<Rightarrow> cache_state" where
  "runCacheRefresh src st now force =
     (let s1 = refreshIfDue st ''daoip2:members'' (30 * 60) now force (buildMembersPayload src);
          s2 = refreshIfDue s1 ''daoip2:proposals'' (15 * 60) now force (fetchProposals src);
          s3 = refreshIfDue s2 ''daoip2:activity'' (15 * 60) now force (fetchActivity src);
          s4 = refreshIfDue s3 ''sb:roles'' (30 * 60) now force (fetchRoles src);
          s5 = refreshIfDue s4 ''sb:groups'' (2 * 60 * 60) now force (fetchGroups src)
      in if force then s5\<lparr>cache := (cache s5)(''daoip2:dao'' := None)\<rparr> else s5)"

text \<open>How often a source was queried.\<close>

definition queries :: "string \<Rightarrow> cache_state \<Rightarrow> nat" where
  "queries source st = length (filter (\<lambda>q. q = source) (queried st))"

section \<open>The exclusion patterns in the words of the specification\<close>

text \<open>An underscore-prefixed name: a segment of the path that starts with an underscore.\<close>

definition underscorePrefixedName :: "string \<Rightarrow> bool" where
  "underscorePrefixedName path = list_ex (\<lambda>seg. startsWith seg ''_'') (split (CHR ''/'') path)"

definition specExcludedPath :: "string \<Rightarrow> bool" where
  "specExcludedPath path =
     (includesStr path ''README'' \<or> includesStr path ''template'' \<or> underscorePrefixedName path)"

section \<open>Sample inputs\<close>

text \<open>A push to the main branch that adds one markdown file, a stand-in for the HMAC
  that gives the one byte \<open>0xab\<close>, and a delivery signed for it.\<close>

definition samplePush :: GitHubPushEvent where
  "samplePush =
     \<lparr>pe_ref = ''refs/heads/main'', pe_after = ''9fceb02'', pe_before = ''0000000'',
      pe_commits = [\<lparr>c_id = ''9fceb02'', c_message = ''add charter'',
                     c_added = [''agreements/charter.md''], c_modified = [], c_removed = []\<rparr>]\<rparr>"

definition sampleHmac :: "string \<Rightarrow> string \<Rightarrow> nat list" where
  "sampleHmac secret body = [171]"

definition sampleParse :: "string \<Rightarrow> GitHubPushEvent option" where
  "sampleParse body = Some samplePush"

definition sampleDelivery :: "string option \<Rightarrow> request" where
  "sampleDelivery deliveryId =
     \<lparr>req_body = ''{}'', req_signature = Some ''sha256=ab'', req_deliveryId = deliveryId\<rparr>"

definition freshWorker :: worker where
  "freshWorker = \<lparr>sync_state = Map.empty, dispatched = []\<rparr>"

text \<open>An empty cache, and the sources at two moments: between them a second proposal
  has appeared on Snapshot.\<close>

definition emptyCache :: cache_state where
  "emptyCache = \<lparr>cache = Map.empty, fetched = [], queried = []\<rparr>"

definition sourcesBefore :: sources where
  "sourcesBefore =
     \<lparr>src_members = Some ''{}'', src_ensProfiles = None,
      src_snapshot = Some ''[101]'', src_hats = Some None,
      src_groups = Some ''[]'', src_activeGroups = (\<lambda>groups. groups)\<rparr>"

definition sourcesAfter :: sources where
  "sourcesAfter = sourcesBefore\<lparr>src_snapshot := Some ''[101,102]''\<rparr>"

text \<open>The state after a cycle at time \<open>T\<close> on the empty cache: every key has just been
  refreshed.\<close>

definition firstCycle :: "nat \<Rightarrow> cache_state" where
  "firstCycle T = runCacheRefresh sourcesBefore emptyCache T False"

text \<open>A connection that binds strings only, with the foreign keys enforced or not, and
  an empty store over the seeded database.\<close>

definition stringEngine :: "bool \<Rightarrow> engine" where
  "stringEngine fk =
     \<lparr>foreignKeys = fk, bindable = (\<lambda>v. case v of YStr _ \<Rightarrow> True | YList _ \<Rightarrow> False)\<rparr>"

definition emptyStore :: store where
  "emptyStore = \<lparr>content_mirror = Map.empty, graph = initialDatabase\<rparr>"

text \<open>Three files of a governance repository. The operating agreement declares its
  relationship in the block form that the header of the parser documents, and, in a
  second version, as an inline list of one mapping.\<close>

definition charterPath :: string where
  "charterPath = ''agreements/charter.md''"

definition charterMd :: string where
  "charterMd = ''---\<newline>type: agreement\<newline>status: active\<newline>---\<newline># Charter''"

definition agreementPath :: string where
  "agreementPath = ''agreements/operating-agreement.md''"

definition agreementMd :: string where
  "agreementMd =
     ''---\<newline>type: agreement\<newline>status: active\<newline>domain: [dao-core]\<newline>related:\<newline>  - type: authorized_by\<newline>    target: charter\<newline>---\<newline># Operating Agreement''"

definition agreementInlineMd :: string where
  "agreementInlineMd =
     ''---\<newline>type: agreement\<newline>status: active\<newline>domain: [dao-core]\<newline>related: [{type: authorized_by, target: charter}]\<newline>---\<newline># Operating Agreement''"

definition agreementStringMd :: string where
  "agreementStringMd =
     ''---\<newline>type: agreement\<newline>status: active\<newline>domain: [dao-core]\<newline>related:\<newline>  - authorized_by: charter\<newline>---\<newline># Operating Agreement''"

definition budgetPath :: string where
  "budgetPath = ''proposals/budget.md''"

definition budgetMd :: string where
  "budgetMd = ''---\<newline>type: proposal\<newline>status: active\<newline>---\<newline># Budget''"

text \<open>A stored row for the charter, and a parsed record for the same slug that carries
  another id and another type.\<close>

definition storedCharter :: document_row where
  "storedCharter =
     \<lparr>doc_id = YStr ''charter'', doc_slug = ''charter'', doc_type = Agreement,
      doc_title = YStr ''Charter'', doc_status = Active, doc_effective_from = None,
      doc_effective_to = None, doc_content_hash = None, doc_enacted_by = None,
      doc_r2_key = Some ''governance/agreements/charter.md'',
      doc_created_at = 10, doc_updated_at = 10\<rparr>"

definition revisedCharter :: ParsedDocument where
  "revisedCharter =
     \<lparr>pd_id = YStr ''charter-2'', pd_slug = ''charter'', pd_type = Policy,
      pd_title = YStr ''Charter (revised)'', pd_status = Superseded,
      pd_effectiveFrom = Some (YStr ''2026-01-01''), pd_effectiveTo = None,
      pd_enactedBy = None, pd_domains = [''treasury''], pd_relationships = [],
      pd_scope = []\<rparr>"

text \<open>A policy that names the charter as its authority, and a version of it that names
  itself.\<close>

definition policyPath :: string where
  "policyPath = ''policies/travel-policy.md''"

definition policyMd :: string where
  "policyMd =
     ''---\<newline>type: policy\<newline>status: active\<newline>domain: [operations]\<newline>related:\<newline>  - authorized_by: charter\<newline>---\<newline># Travel Policy''"

definition selfPolicyMd :: string where
  "selfPolicyMd =
     ''---\<newline>type: policy\<newline>status: active\<newline>related:\<newline>  - authorized_by: travel-policy\<newline>---\<newline># Travel Policy''"

section \<open>Properties of the parser\<close>

lemmas parser_defs = parseGovernanceDocument_def isExcludedPath_def extractFrontmatter_def
  matchFrontmatter_def parseYamlSimple_def yamlLine_def matchListItem_def matchKeyValue_def
  isSpace_def isWord_def isKeyChar_def isLineTerminator_def trim_def flushList_def setProp_def
  startsWith_def endsWith_def stripQuotes_def isQuote_def pushObjectItem_def

lemma parse_no_frontmatter:
  "matchFrontmatter content = None \<Longrightarrow> parseGovernanceDocument path content = Inr None"
  by (simp add: parseGovernanceDocument_def extractFrontmatter_def)

lemma parse_record_is_built:
  assumes "parseGovernanceDocument path content = Inr (Some d)"
  shows "\<exists>fm. extractFrontmatter content = Inr (Some fm) \<and> d = buildDocument path fm"
  using assms
  by (auto simp: parseGovernanceDocument_def split: if_splits sum.splits option.splits)

lemma buildDocument_defaults:
  "fm ''type'' = None \<Longrightarrow> pd_type (buildDocument path fm) = Other"
  "fm ''status'' = None \<Longrightarrow> pd_status (buildDocument path fm) = Draft"
  "fm ''title'' = None \<Longrightarrow> pd_title (buildDocument path fm) = YStr (titleFromPath path)"
  "fm ''domain'' = None \<Longrightarrow> fm ''domains'' = None \<Longrightarrow> pd_domains (buildDocument path fm) = []"
  "fm ''related'' = None \<Longrightarrow> fm ''relationships'' = None
     \<Longrightarrow> pd_relationships (buildDocument path fm) = []"
  "fm ''scope'' = None \<Longrightarrow> pd_scope (buildDocument path fm) = []"
  by (simp_all add: buildDocument_def normaliseType_def normaliseStatus_def orElse_def
        normaliseDomains_def normaliseRelationships_def normaliseScope_def)

text \<open>
  Claim C7, at an input where it fails. The path is not excluded and the content has a
  metadata block, in which a list item follows a key with a plain value. The parser
  then calls \<^verbatim>\<open>push\<close> on a string and raises a TypeError; it returns no record.
\<close>

theorem parser_raises_on_item_under_scalar:
  "\<not> isExcludedPath ''policies/treasury.md''
   \<and> matchFrontmatter ''---\<newline>title: Treasury Policy\<newline>domain: treasury\<newline>  - operations\<newline>---'' \<noteq> None
   \<and> parseGovernanceDocument ''policies/treasury.md''
        ''---\<newline>title: Treasury Policy\<newline>domain: treasury\<newline>  - operations\<newline>---''
      = Inl TypeError"
  by (simp add: parser_defs)

text \<open>
  Claim C8, as the code has it. A path is rejected because of its name exactly when it
  contains \<^verbatim>\<open>README\<close>, contains \<^verbatim>\<open>template\<close>, or contains an underscore anywhere:
  every such path gives \<^verbatim>\<open>null\<close>, and a path without these, on a content with a
  metadata block, does not give \<^verbatim>\<open>null\<close>.
\<close>

theorem path_exclusion:
  "(includesStr path ''README'' \<or> includesStr path ''template'' \<or> includesStr path ''_''
      \<longrightarrow> parseGovernanceDocument path content = Inr None)
   \<and> (\<not> (includesStr path ''README'' \<or> includesStr path ''template'' \<or> includesStr path ''_'')
        \<and> matchFrontmatter content \<noteq> None
      \<longrightarrow> parseGovernanceDocument path content \<noteq> Inr None)"
  by (auto simp: parseGovernanceDocument_def isExcludedPath_def extractFrontmatter_def
           split: option.splits sum.splits)

theorem path_exclusion_witness:
  "parseGovernanceDocument ''_drafts/plan.md'' ''---\<newline>title: Plan\<newline>---'' = Inr None
   \<and> matchFrontmatter ''---\<newline>title: Plan\<newline>---'' \<noteq> None
   \<and> parseGovernanceDocument ''policies/conduct.md'' ''---\<newline>title: Plan\<newline>---'' \<noteq> Inr None"
  using path_exclusion [of "''_drafts/plan.md''" "''---\<newline>title: Plan\<newline>---''"]
        path_exclusion [of "''policies/conduct.md''" "''---\<newline>title: Plan\<newline>---''"]
  by (simp add: matchFrontmatter_def)

text \<open>
  Claim C8 as stated fails: the path below has no readme marker, no template marker and
  no underscore-prefixed name, its content has a metadata block, and the parser still
  rejects it, because of the underscores inside the file name.
\<close>

theorem path_exclusion_counterexample:
  "\<not> specExcludedPath ''policies/code_of_conduct.md''
   \<and> matchFrontmatter ''---\<newline>title: Code of Conduct\<newline>---'' \<noteq> None
   \<and> parseGovernanceDocument ''policies/code_of_conduct.md''
        ''---\<newline>title: Code of Conduct\<newline>---'' = Inr None"
  by (simp add: specExcludedPath_def underscorePrefixedName_def startsWith_def
        parseGovernanceDocument_def isExcludedPath_def matchFrontmatter_def)

section \<open>Properties of the webhook intake\<close>

lemma processPush_sync_state: "sync_state (snd (processPush parse w body)) = sync_state w"
  by (simp add: processPush_def split: option.splits)

lemma processPush_dispatched_le:
  "length (dispatched (snd (processPush parse w body))) \<le> Suc (length (dispatched w))"
  by (simp add: processPush_def split: option.splits)

lemma natToString_nonempty: "natToString n \<noteq> []"
  by (subst natToString.simps) simp

lemma handleWebhook_dispatched_le:
  "length (dispatched (snd (handleWebhook hmac parse secret now w req)))
     \<le> Suc (length (dispatched w))"
proof -
  have "length (dispatched (snd (processPush parse w' b))) \<le> Suc (length (dispatched w))"
    if "dispatched w' = dispatched w" for w' b
    using processPush_dispatched_le [of parse w' b] that by simp
  then show ?thesis
    by (simp add: handleWebhook_def Let_def split: option.splits)
qed

text \<open>A live record of a delivery id survives every delivery handled before it expires:
  only a missing record is written.\<close>

lemma nonce_persists:
  assumes "sync_state w k = Some (v, e)" and "v \<noteq> []" and "t < e"
  shows "sync_state (snd (handleWebhook hmac parse secret t w req)) k = Some (v, e)"
proof -
  have g: "kvGet (sync_state w) t k = Some v" using assms by (simp add: kvGet_def)
  have put: "(kvPut (sync_state w) t k' x ttl) k = Some (v, e)" if "k' \<noteq> k" for k' x ttl
    using that assms(1) by (simp add: kvPut_def)
  show ?thesis
  proof (cases "req_deliveryId req")
    case None
    then show ?thesis using assms(1)
      by (simp add: handleWebhook_def processPush_sync_state)
  next
    case (Some d)
    show ?thesis
    proof (cases "''webhook:'' @ d = k")
      case True
      then show ?thesis using Some g assms(1,2)
        by (auto simp: handleWebhook_def Let_def processPush_sync_state)
    next
      case False
      then show ?thesis using Some assms(1) put [OF False]
        by (auto simp: handleWebhook_def Let_def processPush_sync_state split: option.splits)
    qed
  qed
qed

lemma nonce_persists_all:
  assumes "sync_state w k = Some (v, e)" and "v \<noteq> []" and "\<forall>(t, r) \<in> set mid. t < e"
  shows "sync_state (handleDeliveries hmac parse secret w mid) k = Some (v, e)"
  using assms
proof (induction mid arbitrary: w)
  case Nil
  then show ?case by simp
next
  case (Cons a mid)
  obtain t r where a: "a = (t, r)" by (cases a)
  have "sync_state (snd (handleWebhook hmac parse secret t w r)) k = Some (v, e)"
    using Cons.prems a by (intro nonce_persists) auto
  then show ?case using Cons a by simp
qed

lemma sample_signature:
  "verifyWebhookSignature sampleHmac (req_body (sampleDelivery i))
     (req_signature (sampleDelivery i)) ''s3cret''"
  by (simp add: verifyWebhookSignature_def startsWith_def timingSafeEqual_def hexByte_def
        hexDigit_def sampleHmac_def sampleDelivery_def)

text \<open>
  Claim C3, as the code has it. Two deliveries with valid signatures carry the same
  delivery id \<open>d\<close>. The first is the first sight of the id: it is handled at time \<open>ta\<close>,
  when the id has no live record. The second is handled at \<open>tb\<close>,
  less than 24 hours later, after any deliveries \<open>mid\<close> handled in between. Then the
  second is answered "duplicate" and leaves the worker as it was, whatever its body
  holds: nothing is parsed, filtered or dispatched. The first is not a duplicate and
  creates at most one workflow instance, so the two together invoke the pipeline at most
  once.
\<close>

theorem replay_protection:
  assumes sig1: "verifyWebhookSignature hmac (req_body ra) (req_signature ra) secret"
      and sig2: "verifyWebhookSignature hmac (req_body rb) (req_signature rb) secret"
      and id1: "req_deliveryId ra = Some d" and id2: "req_deliveryId rb = Some d"
      and d: "d \<noteq> []"
      and first: "kvGet (sync_state w) ta (''webhook:'' @ d) = None"
      and mid: "\<forall>(t, r) \<in> set mid. t < ta + 86400 * 1000"
      and time: "ta \<le> tb" "tb < ta + 86400 * 1000"
      and wa: "wa = snd (handleWebhook hmac parse secret ta w ra)"
      and wb: "wb = handleDeliveries hmac parse secret wa mid"
  shows "handleWebhook hmac parse secret tb wb rb = (Inr (Duplicate d), wb)
         \<and> fst (handleWebhook hmac parse secret ta w ra) \<noteq> Inr (Duplicate d)
         \<and> length (dispatched wa) \<le> length (dispatched w) + 1"
proof -
  let ?k = "''webhook:'' @ d"
  let ?w0 = "w\<lparr>sync_state := kvPut (sync_state w) ta ?k (natToString ta) 86400\<rparr>"
  have h1: "handleWebhook hmac parse secret ta w ra = processPush parse ?w0 (req_body ra)"
    using sig1 id1 d first by (simp add: handleWebhook_def Let_def)
  have st: "sync_state wa ?k = Some (natToString ta, ta + 86400 * 1000)"
    by (simp add: wa h1 processPush_sync_state kvPut_def)
  have "sync_state wb ?k = Some (natToString ta, ta + 86400 * 1000)"
    unfolding wb using st natToString_nonempty mid by (rule nonce_persists_all)
  then have get: "kvGet (sync_state wb) tb ?k = Some (natToString ta)"
    using time by (simp add: kvGet_def)
  have second: "handleWebhook hmac parse secret tb wb rb = (Inr (Duplicate d), wb)"
    using sig2 id2 d get natToString_nonempty by (simp add: handleWebhook_def Let_def)
  have nd: "fst (handleWebhook hmac parse secret ta w ra) \<noteq> Inr (Duplicate d)"
    by (simp add: h1 processPush_def split: option.splits)
  show ?thesis
    using second nd handleWebhook_dispatched_le [of hmac parse secret ta w ra] wa by simp
qed

theorem replay_protection_witness:
  "handleWebhook sampleHmac sampleParse ''s3cret'' 5000
     (handleDeliveries sampleHmac sampleParse ''s3cret''
        (snd (handleWebhook sampleHmac sampleParse ''s3cret'' 1000 freshWorker
                (sampleDelivery (Some ''d-1''))))
        [(2000, sampleDelivery (Some ''d-2''))])
     (sampleDelivery (Some ''d-1''))
   = (Inr (Duplicate ''d-1''),
      handleDeliveries sampleHmac sampleParse ''s3cret''
        (snd (handleWebhook sampleHmac sampleParse ''s3cret'' 1000 freshWorker
                (sampleDelivery (Some ''d-1''))))
        [(2000, sampleDelivery (Some ''d-2''))])
   \<and> fst (handleWebhook sampleHmac sampleParse ''s3cret'' 1000 freshWorker
            (sampleDelivery (Some ''d-1''))) \<noteq> Inr (Duplicate ''d-1'')"
  using replay_protection [where hmac = sampleHmac and secret = "''s3cret''"
      and parse = sampleParse
      and ra = "sampleDelivery (Some ''d-1'')" and rb = "sampleDelivery (Some ''d-1'')"
      and d = "''d-1''" and w = freshWorker and ta = 1000 and tb = 5000
      and mid = "[(2000, sampleDelivery (Some ''d-2''))]",
      OF sample_signature sample_signature _ _ _ _ _ _ _ refl refl]
  by (simp add: sampleDelivery_def freshWorker_def kvGet_def)

text \<open>
  Claim C3 as stated fails for two deliveries of which the earlier is itself a repeat.
  The id is first seen at time 1000 (milliseconds). A delivery 23 hours later is a
  duplicate, and a duplicate returns before the record is written, so the record still
  expires 24 hours after the first sight. A third delivery 25 hours after the first
  sight, two hours after the second, finds no record: it is accepted and dispatched.
\<close>

theorem replay_window_counterexample:
  "fst (handleWebhook sampleHmac sampleParse ''s3cret'' 82801000
          (handleDeliveries sampleHmac sampleParse ''s3cret'' freshWorker
             [(1000, sampleDelivery (Some ''d-1''))])
          (sampleDelivery (Some ''d-1'')))
     = Inr (Duplicate ''d-1'')
   \<and> fst (handleWebhook sampleHmac sampleParse ''s3cret'' 90001000
          (handleDeliveries sampleHmac sampleParse ''s3cret'' freshWorker
             [(1000, sampleDelivery (Some ''d-1'')), (82801000, sampleDelivery (Some ''d-1''))])
          (sampleDelivery (Some ''d-1'')))
     = Inr (Accepted 1 0)
   \<and> length (dispatched
        (handleDeliveries sampleHmac sampleParse ''s3cret'' freshWorker
           [(1000, sampleDelivery (Some ''d-1'')), (82801000, sampleDelivery (Some ''d-1'')),
            (90001000, sampleDelivery (Some ''d-1''))])) = 2
   \<and> verifyWebhookSignature sampleHmac (req_body (sampleDelivery (Some ''d-1'')))
        (req_signature (sampleDelivery (Some ''d-1''))) ''s3cret''
   \<and> (90001000::nat) < 82801000 + 86400 * 1000"
proof -
  have sig: "verifyWebhookSignature sampleHmac ''{}'' (Some ''sha256=ab'') ''s3cret''"
    using sample_signature [of None] by (simp add: sampleDelivery_def)
  have len: "uniqueChanged samplePush = [''agreements/charter.md'']" "uniqueDeleted samplePush = []"
    by (simp_all add: uniqueChanged_def uniqueDeleted_def unique_def samplePush_def endsWith_def)
  have ref: "pe_ref samplePush = ''refs/heads/main''" by (simp add: samplePush_def)
  show ?thesis
    using sample_signature [of "Some ''d-1''"]
    by (simp add: handleWebhook_def processPush_def sampleDelivery_def freshWorker_def
          sampleParse_def kvGet_def kvPut_def sig len ref natToString_nonempty)
qed

lemma uniqueFrom_Nil_iff: "uniqueFrom seen xs = [] \<longleftrightarrow> set xs \<subseteq> set seen"
  by (induction xs arbitrary: seen) auto

lemma unique_Nil_iff: "unique xs = [] \<longleftrightarrow> xs = []"
  by (simp add: unique_def uniqueFrom_Nil_iff)

lemma markdown_changes:
  assumes "\<exists>c \<in> set (pe_commits payload).
             \<exists>f \<in> set (c_added c @ c_modified c @ c_removed c). endsWith f ''.md''"
  shows "uniqueChanged payload \<noteq> [] \<or> uniqueDeleted payload \<noteq> []"
  using assms
  by (auto simp: uniqueChanged_def uniqueDeleted_def unique_Nil_iff filter_empty_conv)

text \<open>
  Claim C10. A delivery without the delivery-id header, with a valid signature, whose
  payload is a push to the main branch that touches a markdown file: handled twice (at
  any two times, from any worker state), each time it is accepted and creates a workflow
  instance, and the replay records are left as they were; their content has no influence.
\<close>

theorem missing_delivery_id_is_not_deduplicated:
  assumes sig: "verifyWebhookSignature hmac (req_body req) (req_signature req) secret"
      and noid: "req_deliveryId req = None"
      and parse: "parse (req_body req) = Some payload"
      and main: "pe_ref payload = ''refs/heads/main''"
      and md: "\<exists>c \<in> set (pe_commits payload).
                 \<exists>f \<in> set (c_added c @ c_modified c @ c_removed c). endsWith f ''.md''"
      and ok: "ok = Inr (Accepted (length (uniqueChanged payload)) (length (uniqueDeleted payload)))"
  shows "handleWebhook hmac parse secret ta w req
           = (ok, w\<lparr>dispatched := dispatched w @ [syncParamsOf payload]\<rparr>)
       \<and> handleWebhook hmac parse secret tb
           (w\<lparr>dispatched := dispatched w @ [syncParamsOf payload]\<rparr>) req
           = (ok, w\<lparr>dispatched := dispatched w @ [syncParamsOf payload, syncParamsOf payload]\<rparr>)"
  using sig noid parse main ok markdown_changes [OF md]
  by (auto simp add: handleWebhook_def processPush_def)

theorem missing_delivery_id_is_not_deduplicated_witness:
  "handleWebhook sampleHmac sampleParse ''s3cret'' 1000 freshWorker (sampleDelivery None)
     = (Inr (Accepted 1 0), freshWorker\<lparr>dispatched := [syncParamsOf samplePush]\<rparr>)
   \<and> handleWebhook sampleHmac sampleParse ''s3cret'' 2000
       (freshWorker\<lparr>dispatched := [syncParamsOf samplePush]\<rparr>) (sampleDelivery None)
     = (Inr (Accepted 1 0),
        freshWorker\<lparr>dispatched := [syncParamsOf samplePush, syncParamsOf samplePush]\<rparr>)"
proof -
  have md: "\<exists>c \<in> set (pe_commits samplePush).
              \<exists>f \<in> set (c_added c @ c_modified c @ c_removed c). endsWith f ''.md''"
    by (simp add: samplePush_def endsWith_def)
  have main: "pe_ref samplePush = ''refs/heads/main''"
    by (simp add: samplePush_def)
  have len: "length (uniqueChanged samplePush) = 1" "length (uniqueDeleted samplePush) = 0"
    by (simp_all add: uniqueChanged_def uniqueDeleted_def unique_def samplePush_def endsWith_def)
  show ?thesis
    using missing_delivery_id_is_not_deduplicated [where hmac = sampleHmac
        and parse = sampleParse and secret = "''s3cret''" and req = "sampleDelivery None"
        and payload = samplePush and w = freshWorker and ta = 1000 and tb = 2000,
        OF sample_signature _ _ main md refl]
    by (simp add: len sampleDelivery_def sampleParse_def freshWorker_def)
qed

section \<open>Properties of the cache refresh\<close>

lemma digitChar_props:
  assumes "d < 10"
  shows "isDigit (digitChar d)" "of_char (digitChar d) - 48 = d"
        "\<not> isSpace (digitChar d)" "digitChar d \<noteq> CHR ''-''" "digitChar d \<noteq> CHR ''+''"
proof -
  have c: "(of_char (digitChar d) :: nat) = 48 + d"
    using assms by (simp add: digitChar_def)
  show "isDigit (digitChar d)" using assms by (simp add: isDigit_def c)
  show "of_char (digitChar d) - 48 = d" by (simp add: c)
  have ne: "digitChar d \<noteq> x" if "(of_char x :: nat) < 48" for x
    using that c by (metis add_leD1 le_add1 not_less)
  show "\<not> isSpace (digitChar d)"
    unfolding isSpace_def using c assms
    by (auto dest!: arg_cong [where f = "of_char :: char \<Rightarrow> nat"])
  show "digitChar d \<noteq> CHR ''-''" using ne [of "CHR ''-''"] by simp
  show "digitChar d \<noteq> CHR ''+''" using ne [of "CHR ''+''"] by simp
qed

lemma natToString_digits:
  "natToString n \<noteq> [] \<and> (\<forall>c \<in> set (natToString n). isDigit c)
   \<and> digitsValue (natToString n) = n
   \<and> \<not> isSpace (hd (natToString n)) \<and> hd (natToString n) \<noteq> CHR ''-''
   \<and> hd (natToString n) \<noteq> CHR ''+''"
proof (induction n rule: natToString.induct)
  case (1 n)
  show ?case
  proof (cases "n < 10")
    case True
    then have s: "natToString n = [digitChar n]" by (subst natToString.simps) simp
    show ?thesis using digitChar_props [OF True] by (simp add: s digitsValue_def)
  next
    case False
    then have s: "natToString n = natToString (n div 10) @ [digitChar (n mod 10)]"
      by (subst natToString.simps) simp
    have m: "n mod 10 < 10" by simp
    from 1 False have ih: "natToString (n div 10) \<noteq> []"
      "\<forall>c \<in> set (natToString (n div 10)). isDigit c"
      "digitsValue (natToString (n div 10)) = n div 10"
      "\<not> isSpace (hd (natToString (n div 10)))" "hd (natToString (n div 10)) \<noteq> CHR ''-''"
      "hd (natToString (n div 10)) \<noteq> CHR ''+''"
      by simp_all
    have dv: "digitsValue (natToString n) = 10 * (n div 10) + n mod 10"
      using ih(3) digitChar_props(2) [OF m] by (simp add: s digitsValue_def)
    show ?thesis
      using ih digitChar_props [OF m] dv by (simp add: s)
  qed
qed

text \<open>The timestamp that a refresh writes is read back as the same number.\<close>

lemma parseInt_natToString: "parseInt (natToString n) = Some (int n)"
proof -
  let ?s = "natToString n"
  from natToString_digits [of n] have ne: "?s \<noteq> []" and dg: "\<forall>c \<in> set ?s. isDigit c"
    and v: "digitsValue ?s = n"
    and h: "\<not> isSpace (hd ?s)" "hd ?s \<noteq> CHR ''-''" "hd ?s \<noteq> CHR ''+''"
    by simp_all
  have d: "dropWhile isSpace ?s = ?s" using ne h by (cases ?s) simp_all
  have t: "takeWhile isDigit ?s = ?s" using dg by (simp add: takeWhile_eq_all_conv)
  show ?thesis using ne h v by (simp add: parseInt_def d t Let_def)
qed

lemmas cache_defs = Let_def runCacheRefresh_def refreshIfDue_def buildMembersPayload_def
  fetchProposals_def fetchActivity_def fetchRoles_def fetchGroups_def cachedValue_def
  queryUpstream_def cachePut_def kvGet_def kvPut_def queries_def emptyCache_def
  sourcesBefore_def sourcesAfter_def natToString_nonempty parseInt_natToString

text \<open>The gate of \<^verbatim>\<open>refreshIfDue\<close>: for a key whose last-run record is live and reads
  as \<open>lastRefresh\<close>, the fetcher is called exactly when \<open>force\<close> is set or the TTL has
  passed, and otherwise nothing changes.\<close>

lemma refresh_gate:
  assumes "kvGet (cache st) now (''lastrun:'' @ key) = Some lastRun" and "lastRun \<noteq> []"
      and "parseInt lastRun = Some lastRefresh"
      and "\<And>t s. fetched (snd (fetcher t s)) = fetched s"
  shows "(fetched (refreshIfDue st key ttl now force fetcher) = fetched st @ [key])
           \<longleftrightarrow> (force \<or> int now - lastRefresh \<ge> int ttl * 1000)"
    and "\<not> (force \<or> int now - lastRefresh \<ge> int ttl * 1000)
           \<Longrightarrow> refreshIfDue st key ttl now force fetcher = st"
proof -
  have f: "fetched (case fetcher now s of
              (None, st1) \<Rightarrow> st1
            | (Some v, st1) \<Rightarrow> cachePut k1 x1 t1 now (cachePut k2 v t2 now st1)) = fetched s"
    for s k1 x1 t1 k2 t2
    using assms(4) [of now s]
    by (cases "fetcher now s") (auto simp: cachePut_def split: option.splits)
  show "(fetched (refreshIfDue st key ttl now force fetcher) = fetched st @ [key])
           \<longleftrightarrow> (force \<or> int now - lastRefresh \<ge> int ttl * 1000)"
    using assms(1-3) by (auto simp: refreshIfDue_def Let_def f)
  show "\<not> (force \<or> int now - lastRefresh \<ge> int ttl * 1000)
           \<Longrightarrow> refreshIfDue st key ttl now force fetcher = st"
    using assms(1-3) by (auto simp: refreshIfDue_def Let_def)
qed

lemma firstCycle_state:
  "cache (firstCycle T) ''daoip2:members'' = Some (''{}'', T + 3600 * 1000)"
  "cache (firstCycle T) ''lastrun:daoip2:members'' = Some (natToString T, T + 3600 * 1000)"
  "cache (firstCycle T) ''daoip2:proposals'' = Some (''[101]'', T + 1800 * 1000)"
  "cache (firstCycle T) ''lastrun:daoip2:proposals'' = Some (natToString T, T + 1800 * 1000)"
  "cache (firstCycle T) ''daoip2:activity'' = Some (''[]'', T + 1800 * 1000)"
  "cache (firstCycle T) ''lastrun:daoip2:activity'' = Some (natToString T, T + 1800 * 1000)"
  "cache (firstCycle T) ''sb:roles'' = Some (''[]'', T + 3600 * 1000)"
  "cache (firstCycle T) ''lastrun:sb:roles'' = Some (natToString T, T + 3600 * 1000)"
  "cache (firstCycle T) ''sb:groups'' = Some (''[]'', T + 14400 * 1000)"
  "cache (firstCycle T) ''lastrun:sb:groups'' = Some (natToString T, T + 14400 * 1000)"
  "fetched (firstCycle T)
     = [''daoip2:members'', ''daoip2:proposals'', ''daoip2:activity'', ''sb:roles'', ''sb:groups'']"
  "queried (firstCycle T) = [''chain'', ''snapshot'', ''hats'', ''github'']"
  by (simp_all add: firstCycle_def cache_defs)

lemmas cycle_defs = Let_def runCacheRefresh_def refreshIfDue_def buildMembersPayload_def
  fetchProposals_def fetchActivity_def fetchRoles_def fetchGroups_def cachedValue_def
  queryUpstream_def cachePut_def kvGet_def kvPut_def queries_def
  sourcesBefore_def sourcesAfter_def natToString_nonempty parseInt_natToString firstCycle_state

text \<open>While a copy of the proposals is cached, a refresh of the key, due or forced,
  does not query Snapshot and stores the cached copy again.\<close>

lemma refresh_of_live_proposals:
  assumes "cachedValue st now ''daoip2:proposals'' = Some v"
      and "st' = refreshIfDue st ''daoip2:proposals'' (15 * 60) now force (fetchProposals src)"
  shows "queried st' = queried st \<and> cachedValue st' now ''daoip2:proposals'' = Some v"
proof -
  have v: "v \<noteq> []"
    using assms(1) by (auto simp: cachedValue_def split: option.splits if_splits)
  have c: "cachedValue (st\<lparr>fetched := fetched st @ [k]\<rparr>) now ''daoip2:proposals'' = Some v"
    for k
    using assms(1) by (simp add: cachedValue_def)
  show ?thesis
    unfolding assms(2) refreshIfDue_def Let_def
    using assms(1) v
    by (simp add: fetchProposals_def c)
       (simp add: cachedValue_def cachePut_def kvGet_def kvPut_def)
qed

text \<open>
  Claim C6, at an input where it fails. A cycle at time \<open>T\<close> on the empty cache has
  refreshed every key; the proposals (TTL 900 s) were read from Snapshot once. The next
  cycle comes 901 s later, when Snapshot has a second proposal. The gate opens and the
  fetcher of the key is called, but \<^verbatim>\<open>fetchProposals\<close> finds the copy that the first
  refresh stored for twice the TTL and returns it: Snapshot is not queried, and the
  cache still holds the old list. A forced cycle does the same.
\<close>

theorem due_refresh_serves_cached_copy:
  "cachedValue (firstCycle T) T ''daoip2:proposals'' = Some ''[101]''
   \<and> queries ''snapshot'' (firstCycle T) = 1
   \<and> src_snapshot sourcesAfter = Some ''[101,102]''
   \<and> fetched (runCacheRefresh sourcesAfter (firstCycle T) (T + 901 * 1000) False)
       = fetched (firstCycle T) @ [''daoip2:proposals'', ''daoip2:activity'']
   \<and> queries ''snapshot''
        (runCacheRefresh sourcesAfter (firstCycle T) (T + 901 * 1000) False) = 1
   \<and> cachedValue (runCacheRefresh sourcesAfter (firstCycle T) (T + 901 * 1000) False)
        (T + 901 * 1000) ''daoip2:proposals'' = Some ''[101]''
   \<and> queries ''snapshot''
        (runCacheRefresh sourcesAfter (firstCycle T) (T + 901 * 1000) True) = 1
   \<and> cachedValue (runCacheRefresh sourcesAfter (firstCycle T) (T + 901 * 1000) True)
        (T + 901 * 1000) ''daoip2:proposals'' = Some ''[101]''"
  by (simp add: cycle_defs)


section \<open>Properties of the sync workflow\<close>

lemmas db_defs = Let_def syncFile_def upsertDocument_def upsertDocumentRow_def
  insertDocumentDomain_def insertRelationship_def relationshipId_def jsToString_def hasSlug_def
  hasDocumentId_def bindableOpt_def conflictUpdate_def insertedRow_def stringEngine_def
  emptyStore_def initialDatabase_def seedDomains_def relationshipTypes_def buildDocument_def
  normaliseType_def normaliseStatus_def normaliseDomains_def normaliseRelationships_def
  normaliseScope_def matchRelationship_def pathToSlug_def dropMd_def slashToDash_def
  titleFromPath_def capitalise_def toUpperCase_def orElse_def deleteFile_def deleteDocument_def
  workflow_pathToSlug_def thenSync_def thenDelete_def storedRows_def rowsWithSlug_def
  parsedSlug_def

lemma insertDocumentDomain_frame:
  assumes "insertDocumentDomain eng i did db = Inr db'"
  shows "documents db' = documents db \<and> domains db' = domains db
         \<and> document_relationships db' = document_relationships db"
  using assms by (auto simp: insertDocumentDomain_def split: if_splits)

lemma upsertDomains_frame:
  assumes "upsertDomains eng i ss db = Inr db'"
  shows "documents db' = documents db \<and> domains db' = domains db
         \<and> document_relationships db' = document_relationships db"
  using assms
proof (induction ss arbitrary: db)
  case Nil
  then show ?case by simp
next
  case (Cons s ss)
  show ?case
  proof (cases "find (\<lambda>d. dom_slug d = s) (domains db)")
    case None
    with Cons show ?thesis by simp
  next
    case (Some d)
    with Cons.prems obtain db1 where 1: "insertDocumentDomain eng i (dom_id d) db = Inr db1"
      and 2: "upsertDomains eng i ss db1 = Inr db'"
      by (auto split: sum.splits)
    show ?thesis using Cons.IH [OF 2] insertDocumentDomain_frame [OF 1] by simp
  qed
qed

lemma insertRelationship_frame:
  assumes "insertRelationship eng now i ty tid db = Inr db'"
  shows "documents db' = documents db \<and> domains db' = domains db
         \<and> document_domains db' = document_domains db"
  using assms by (auto simp: insertRelationship_def split: if_splits)

lemma upsertRelationships_frame:
  assumes "upsertRelationships eng now i rels db = Inr db'"
  shows "documents db' = documents db \<and> domains db' = domains db
         \<and> document_domains db' = document_domains db"
  using assms
proof (induction rels arbitrary: db)
  case Nil
  then show ?case by simp
next
  case (Cons rel rels)
  show ?case
  proof (cases "find (\<lambda>r. doc_slug r = targetSlug rel) (documents db)")
    case None
    with Cons show ?thesis by simp
  next
    case (Some t)
    with Cons.prems obtain db1 where
      1: "insertRelationship eng now i (rel_type rel) (doc_id t) db = Inr db1"
      and 2: "upsertRelationships eng now i rels db1 = Inr db'"
      by (auto split: sum.splits)
    show ?thesis using Cons.IH [OF 2] insertRelationship_frame [OF 1] by simp
  qed
qed

lemma upsertDocument_documents:
  assumes "upsertDocument eng now db p r2Key = Inr db'"
  shows "upsertDocumentRow eng now p r2Key (documents db) = Inr (documents db')"
proof -
  from assms obtain docs db1 where
    1: "upsertDocumentRow eng now p r2Key (documents db) = Inr docs"
    and 2: "upsertDomains eng (pd_id p) (pd_domains p) (db\<lparr>documents := docs\<rparr>) = Inr db1"
    and 3: "upsertRelationships eng now (pd_id p) (pd_relationships p) db1 = Inr db'"
    by (auto simp: upsertDocument_def split: sum.splits)
  show ?thesis using 1 upsertDomains_frame [OF 2] upsertRelationships_frame [OF 3] by simp
qed

lemma insertDocumentDomain_documents:
  "documents (outcomeState (insertDocumentDomain eng i did db)) = documents db"
  by (simp add: insertDocumentDomain_def outcomeState_def)

lemma upsertDomains_documents:
  "documents (outcomeState (upsertDomains eng i ss db)) = documents db"
proof (induction ss arbitrary: db)
  case Nil
  then show ?case by (simp add: outcomeState_def)
next
  case (Cons s ss)
  show ?case
  proof (cases "find (\<lambda>d. dom_slug d = s) (domains db)")
    case None
    then show ?thesis using Cons by simp
  next
    case (Some d)
    show ?thesis
    proof (cases "insertDocumentDomain eng i (dom_id d) db")
      case (Inl x)
      then show ?thesis
        using Some insertDocumentDomain_documents [of eng i "dom_id d" db] by simp
    next
      case (Inr db1)
      then have "documents db1 = documents db"
        using insertDocumentDomain_documents [of eng i "dom_id d" db]
        by (simp add: outcomeState_def)
      then show ?thesis using Some Inr Cons [of db1] by simp
    qed
  qed
qed

lemma insertRelationship_documents:
  "documents (outcomeState (insertRelationship eng now i ty tid db)) = documents db"
  by (simp add: insertRelationship_def outcomeState_def)

lemma upsertRelationships_documents:
  "documents (outcomeState (upsertRelationships eng now i rels db)) = documents db"
proof (induction rels arbitrary: db)
  case Nil
  then show ?case by (simp add: outcomeState_def)
next
  case (Cons rel rels)
  show ?case
  proof (cases "find (\<lambda>r. doc_slug r = targetSlug rel) (documents db)")
    case None
    then show ?thesis using Cons by simp
  next
    case (Some t)
    show ?thesis
    proof (cases "insertRelationship eng now i (rel_type rel) (doc_id t) db")
      case (Inl x)
      then show ?thesis
        using Some insertRelationship_documents [of eng now i "rel_type rel" "doc_id t" db]
        by simp
    next
      case (Inr db1)
      then have "documents db1 = documents db"
        using insertRelationship_documents [of eng now i "rel_type rel" "doc_id t" db]
        by (simp add: outcomeState_def)
      then show ?thesis using Some Inr Cons [of db1] by simp
    qed
  qed
qed

text \<open>Whether the call returns or raises, the table \<^verbatim>\<open>documents\<close> it leaves behind is the
  one that the first statement has written.\<close>

lemma upsertDocument_leaves_documents:
  "documents (outcomeState (upsertDocument eng now db p r2Key))
   = (case upsertDocumentRow eng now p r2Key (documents db) of
        Inl e \<Rightarrow> documents db
      | Inr docs \<Rightarrow> docs)"
proof (cases "upsertDocumentRow eng now p r2Key (documents db)")
  case (Inl e)
  then show ?thesis by (simp add: upsertDocument_def outcomeState_def)
next
  case (Inr docs)
  let ?db0 = "db\<lparr>documents := docs\<rparr>"
  show ?thesis
  proof (cases "upsertDomains eng (pd_id p) (pd_domains p) ?db0")
    case (Inl x)
    then show ?thesis
      using Inr upsertDomains_documents [of eng "pd_id p" "pd_domains p" ?db0]
      by (simp add: upsertDocument_def)
  next
    case db1: (Inr db1)
    then have "documents db1 = docs"
      using upsertDomains_documents [of eng "pd_id p" "pd_domains p" ?db0]
      by (simp add: outcomeState_def)
    then show ?thesis
      using Inr db1
        upsertRelationships_documents [of eng now "pd_id p" "pd_relationships p" db1]
      by (simp add: upsertDocument_def)
  qed
qed

text \<open>
  Claim C9. A row with the slug of the parsed record is stored. Whether
  \<^verbatim>\<open>upsertDocument\<close> then returns or raises in a later statement, the table it leaves
  behind has the same rows in the same order, with the id and the type of every row as
  before, whatever id and type the parsed record carries; when the values of the first
  statement bind, the rows with that slug have exactly their title, status, effective
  dates, enacting proposal, mirror key and update time overwritten, and otherwise
  nothing is written.
\<close>

theorem upsert_conflict_frame:
  assumes conflict: "hasSlug (documents db) (pd_slug p)"
  shows "documents (outcomeState (upsertDocument eng now db p r2Key))
         = (if bindable eng (pd_id p) \<and> bindable eng (pd_title p)
               \<and> bindableOpt eng (pd_effectiveFrom p) \<and> bindableOpt eng (pd_effectiveTo p)
               \<and> bindableOpt eng (pd_enactedBy p)
            then map (\<lambda>r. if doc_slug r = pd_slug p
                          then r\<lparr>doc_title := pd_title p, doc_status := pd_status p,
                                 doc_effective_from := pd_effectiveFrom p,
                                 doc_effective_to := pd_effectiveTo p,
                                 doc_enacted_by := pd_enactedBy p,
                                 doc_r2_key := Some r2Key, doc_updated_at := now\<rparr>
                          else r) (documents db)
            else documents db)
         \<and> map doc_id (documents (outcomeState (upsertDocument eng now db p r2Key)))
             = map doc_id (documents db)
         \<and> map doc_type (documents (outcomeState (upsertDocument eng now db p r2Key)))
             = map doc_type (documents db)"
proof -
  let ?b = "bindable eng (pd_id p) \<and> bindable eng (pd_title p)
               \<and> bindableOpt eng (pd_effectiveFrom p) \<and> bindableOpt eng (pd_effectiveTo p)
               \<and> bindableOpt eng (pd_enactedBy p)"
  have eq: "documents (outcomeState (upsertDocument eng now db p r2Key))
      = (if ?b then map (\<lambda>r. if doc_slug r = pd_slug p then conflictUpdate now p r2Key r else r)
                       (documents db)
         else documents db)"
    using conflict by (simp add: upsertDocument_leaves_documents upsertDocumentRow_def)
  show ?thesis
    unfolding eq by (simp add: conflictUpdate_def comp_def if_distrib cong: if_cong)
qed

theorem upsert_conflict_frame_witness:
  "upsertDocument (stringEngine True) 20 (initialDatabase\<lparr>documents := [storedCharter]\<rparr>)
     revisedCharter ''governance/agreements/charter.md''
   = Inl (ForeignKeyError,
          initialDatabase\<lparr>documents :=
            [storedCharter\<lparr>doc_title := YStr ''Charter (revised)'', doc_status := Superseded,
               doc_effective_from := Some (YStr ''2026-01-01''), doc_updated_at := 20\<rparr>]\<rparr>)
   \<and> documents (outcomeState
        (upsertDocument (stringEngine True) 20 (initialDatabase\<lparr>documents := [storedCharter]\<rparr>)
           revisedCharter ''governance/agreements/charter.md''))
       = [storedCharter\<lparr>doc_title := YStr ''Charter (revised)'', doc_status := Superseded,
               doc_effective_from := Some (YStr ''2026-01-01''), doc_updated_at := 20\<rparr>]
   \<and> doc_id storedCharter \<noteq> pd_id revisedCharter
   \<and> doc_type storedCharter \<noteq> pd_type revisedCharter"
proof -
  let ?db = "initialDatabase\<lparr>documents := [storedCharter]\<rparr>"
  have c: "hasSlug (documents ?db) (pd_slug revisedCharter)"
    by (simp add: hasSlug_def storedCharter_def revisedCharter_def)
  have run: "upsertDocument (stringEngine True) 20 ?db revisedCharter
               ''governance/agreements/charter.md''
             = Inl (ForeignKeyError,
          initialDatabase\<lparr>documents :=
            [storedCharter\<lparr>doc_title := YStr ''Charter (revised)'', doc_status := Superseded,
               doc_effective_from := Some (YStr ''2026-01-01''), doc_updated_at := 20\<rparr>]\<rparr>)"
    by (simp add: db_defs storedCharter_def revisedCharter_def)
  have "documents (outcomeState (upsertDocument (stringEngine True) 20 ?db revisedCharter
               ''governance/agreements/charter.md''))
       = [storedCharter\<lparr>doc_title := YStr ''Charter (revised)'', doc_status := Superseded,
               doc_effective_from := Some (YStr ''2026-01-01''), doc_updated_at := 20\<rparr>]"
    using upsert_conflict_frame [OF c, of "stringEngine True" 20 "''governance/agreements/charter.md''"]
    by (simp add: storedCharter_def revisedCharter_def stringEngine_def bindableOpt_def)
  then show ?thesis
    using run by (simp add: storedCharter_def revisedCharter_def)
qed

lemma find_dom_member:
  "find (\<lambda>d. dom_slug d = s) ds = Some d \<Longrightarrow> list_ex (\<lambda>x. dom_id x = dom_id d) ds"
  by (auto simp: find_Some_iff list_ex_iff)

lemma insertDocumentDomain_present:
  assumes "bindable eng i" and "(i, did) \<in> set (document_domains db)"
  shows "insertDocumentDomain eng i did db = Inr db"
  using assms by (simp add: insertDocumentDomain_def)

lemma insertDocumentDomain_post:
  assumes "insertDocumentDomain eng i did db = Inr db'"
  shows "(i, did) \<in> set (document_domains db')
         \<and> set (document_domains db) \<subseteq> set (document_domains db')"
  using assms by (auto simp: insertDocumentDomain_def split: if_splits)

text \<open>After the domain loop, every domain that was found is linked.\<close>

lemma upsertDomains_post:
  assumes "upsertDomains eng i ss db = Inr db'"
  shows "set (document_domains db) \<subseteq> set (document_domains db')
         \<and> (\<forall>s \<in> set ss. \<forall>d. find (\<lambda>d. dom_slug d = s) (domains db) = Some d
               \<longrightarrow> (i, dom_id d) \<in> set (document_domains db'))"
  using assms
proof (induction ss arbitrary: db)
  case Nil
  then show ?case by simp
next
  case (Cons s ss)
  show ?case
  proof (cases "find (\<lambda>d. dom_slug d = s) (domains db)")
    case None
    with Cons show ?thesis by simp
  next
    case (Some d)
    with Cons.prems obtain db1 where 1: "insertDocumentDomain eng i (dom_id d) db = Inr db1"
      and 2: "upsertDomains eng i ss db1 = Inr db'"
      by (auto split: sum.splits)
    have d1: "domains db1 = domains db" using insertDocumentDomain_frame [OF 1] by simp
    show ?thesis
      using Cons.IH [OF 2] insertDocumentDomain_post [OF 1] Some d1 by auto
  qed
qed

text \<open>When every domain that is found is linked already, the loop changes nothing.\<close>

lemma upsertDomains_again:
  assumes "bindable eng i"
      and "\<forall>s \<in> set ss. \<forall>d. find (\<lambda>d. dom_slug d = s) (domains db) = Some d
               \<longrightarrow> (i, dom_id d) \<in> set (document_domains db)"
  shows "upsertDomains eng i ss db = Inr db"
  using assms
proof (induction ss)
  case Nil
  then show ?case by simp
next
  case (Cons s ss)
  then show ?case
    by (cases "find (\<lambda>d. dom_slug d = s) (domains db)")
       (simp_all add: insertDocumentDomain_present)
qed

lemma insertRelationship_post:
  assumes "insertRelationship eng now i ty tid db = Inr db'"
  shows "bindable eng i \<and> bindable eng tid
         \<and> (ty \<in> set relationshipTypes
              \<longrightarrow> list_ex (\<lambda>r. rr_id r = relationshipId i ty tid) (document_relationships db'))
         \<and> (\<forall>x. list_ex (\<lambda>r. rr_id r = x) (document_relationships db)
              \<longrightarrow> list_ex (\<lambda>r. rr_id r = x) (document_relationships db'))"
  using assms by (auto simp: insertRelationship_def split: if_splits)

lemma insertRelationship_present:
  assumes "bindable eng i" and "bindable eng tid"
      and "ty \<in> set relationshipTypes
             \<longrightarrow> list_ex (\<lambda>r. rr_id r = relationshipId i ty tid) (document_relationships db)"
  shows "insertRelationship eng now i ty tid db = Inr db"
  using assms by (auto simp: insertRelationship_def)

text \<open>After the relationship loop, every edge whose target was found and whose type is in
  the vocabulary is stored under its id.\<close>

lemma upsertRelationships_post:
  assumes "upsertRelationships eng now i rels db = Inr db'"
  shows "(\<forall>x. list_ex (\<lambda>r. rr_id r = x) (document_relationships db)
              \<longrightarrow> list_ex (\<lambda>r. rr_id r = x) (document_relationships db'))
         \<and> (\<forall>rel \<in> set rels. \<forall>t. find (\<lambda>r. doc_slug r = targetSlug rel) (documents db) = Some t
               \<longrightarrow> bindable eng i \<and> bindable eng (doc_id t)
                   \<and> (rel_type rel \<in> set relationshipTypes
                        \<longrightarrow> list_ex (\<lambda>r. rr_id r = relationshipId i (rel_type rel) (doc_id t))
                              (document_relationships db')))"
  using assms
proof (induction rels arbitrary: db)
  case Nil
  then show ?case by simp
next
  case (Cons rel rels)
  show ?case
  proof (cases "find (\<lambda>r. doc_slug r = targetSlug rel) (documents db)")
    case None
    with Cons show ?thesis by simp
  next
    case (Some t)
    with Cons.prems obtain db1 where
      1: "insertRelationship eng now i (rel_type rel) (doc_id t) db = Inr db1"
      and 2: "upsertRelationships eng now i rels db1 = Inr db'"
      by (auto split: sum.splits)
    have d1: "documents db1 = documents db" using insertRelationship_frame [OF 1] by simp
    note ih = Cons.IH [OF 2, unfolded d1]
    note p = insertRelationship_post [OF 1]
    show ?thesis
      using ih p Some by auto
  qed
qed

lemma upsertRelationships_again:
  assumes "\<forall>rel \<in> set rels. \<forall>t. find (\<lambda>r. doc_slug r = targetSlug rel) (documents db) = Some t
               \<longrightarrow> bindable eng i \<and> bindable eng (doc_id t)
                   \<and> (rel_type rel \<in> set relationshipTypes
                        \<longrightarrow> list_ex (\<lambda>r. rr_id r = relationshipId i (rel_type rel) (doc_id t))
                              (document_relationships db))"
  shows "upsertRelationships eng now i rels db = Inr db"
  using assms
proof (induction rels)
  case Nil
  then show ?case by simp
next
  case (Cons rel rels)
  then show ?case
    by (cases "find (\<lambda>r. doc_slug r = targetSlug rel) (documents db)")
       (simp_all add: insertRelationship_present)
qed


lemma upsertDocumentRow_bindable:
  assumes "upsertDocumentRow eng ta p k docs = Inr docs'"
  shows "bindable eng (pd_id p) \<and> bindable eng (pd_title p)
         \<and> bindableOpt eng (pd_effectiveFrom p) \<and> bindableOpt eng (pd_effectiveTo p)
         \<and> bindableOpt eng (pd_enactedBy p)"
  using assms by (auto simp: upsertDocumentRow_def split: if_splits)

lemma upsertDocumentRow_cases:
  assumes "upsertDocumentRow eng ta p k docs = Inr docs'"
  shows "(hasSlug docs (pd_slug p)
           \<and> docs' = map (\<lambda>r. if doc_slug r = pd_slug p then conflictUpdate ta p k r else r) docs)
         \<or> (\<not> hasSlug docs (pd_slug p) \<and> \<not> hasDocumentId docs (pd_id p)
           \<and> docs' = docs @ [insertedRow ta p k])"
  using assms by (auto simp: upsertDocumentRow_def split: if_splits)

lemma map_slug_conflictUpdate:
  "map doc_slug (map (\<lambda>r. if doc_slug r = s then conflictUpdate ta p k r else r) docs)
   = map doc_slug docs"
  by (induction docs) (simp_all add: conflictUpdate_def)

lemma hasSlug_map_slug: "hasSlug docs s \<longleftrightarrow> s \<in> set (map doc_slug docs)"
  by (auto simp: hasSlug_def list_ex_iff)

lemma upsertDocumentRow_hasSlug:
  assumes "upsertDocumentRow eng ta p k docs = Inr docs'"
  shows "hasSlug docs' (pd_slug p)"
  using upsertDocumentRow_cases [OF assms]
proof
  assume a: "hasSlug docs (pd_slug p)
           \<and> docs' = map (\<lambda>r. if doc_slug r = pd_slug p then conflictUpdate ta p k r else r) docs"
  then have "map doc_slug docs' = map doc_slug docs"
    by (simp only: map_slug_conflictUpdate)
  then show ?thesis using a by (simp only: hasSlug_map_slug)
next
  assume "\<not> hasSlug docs (pd_slug p) \<and> \<not> hasDocumentId docs (pd_id p)
           \<and> docs' = docs @ [insertedRow ta p k]"
  then show ?thesis by (simp add: hasSlug_def insertedRow_def)
qed

lemma upsertDocumentRow_values:
  assumes "upsertDocumentRow eng ta p k docs = Inr docs'"
      and "r \<in> set docs'" and "doc_slug r = pd_slug p"
  shows "conflictUpdate tb p k r = r\<lparr>doc_updated_at := tb\<rparr>"
  using upsertDocumentRow_cases [OF assms(1)] assms(2,3)
  by (auto simp: insertedRow_def conflictUpdate_def hasSlug_def list_ex_iff)

lemma upsertDocumentRow_distinct:
  assumes "upsertDocumentRow eng ta p k docs = Inr docs'"
      and "distinct (map doc_slug docs)"
  shows "distinct (map doc_slug docs')"
  using upsertDocumentRow_cases [OF assms(1)]
proof
  assume a: "hasSlug docs (pd_slug p)
           \<and> docs' = map (\<lambda>r. if doc_slug r = pd_slug p then conflictUpdate ta p k r else r) docs"
  then have "map doc_slug docs' = map doc_slug docs"
    by (simp only: map_slug_conflictUpdate)
  then show ?thesis using assms(2) by simp
next
  assume "\<not> hasSlug docs (pd_slug p) \<and> \<not> hasDocumentId docs (pd_id p)
           \<and> docs' = docs @ [insertedRow ta p k]"
  then show ?thesis
    using assms(2) by (auto simp: hasSlug_def list_ex_iff insertedRow_def)
qed

lemma upsertDocumentRow_again:
  assumes "upsertDocumentRow eng ta p k docs = Inr docs'"
  shows "upsertDocumentRow eng tb p k docs'
         = Inr (map (\<lambda>r. if doc_slug r = pd_slug p then r\<lparr>doc_updated_at := tb\<rparr> else r) docs')"
proof -
  have "map (\<lambda>r. if doc_slug r = pd_slug p then conflictUpdate tb p k r else r) docs'
        = map (\<lambda>r. if doc_slug r = pd_slug p then r\<lparr>doc_updated_at := tb\<rparr> else r) docs'"
    using upsertDocumentRow_values [OF assms] by (intro map_cong) auto
  then show ?thesis
    using upsertDocumentRow_bindable [OF assms] upsertDocumentRow_hasSlug [OF assms]
    by (simp add: upsertDocumentRow_def)
qed

lemma find_touch:
  assumes "\<And>x. P (f x) = P x"
  shows "find P (map f xs) = map_option f (find P xs)"
  using assms by (induction xs) auto

lemma filter_unique_slug:
  assumes "distinct (map doc_slug docs)" and "hasSlug docs s"
  shows "\<exists>r. filter (\<lambda>x. doc_slug x = s) docs = [r]"
  using assms
proof (induction docs)
  case Nil
  then show ?case by (simp add: hasSlug_def)
next
  case (Cons a docs)
  show ?case
  proof (cases "doc_slug a = s")
    case True
    have "doc_slug a \<notin> doc_slug ` set docs" using Cons.prems(1) by simp
    then have "\<forall>x \<in> set docs. doc_slug x \<noteq> s" using True by blast
    then have "filter (\<lambda>x. doc_slug x = s) docs = []"
      by (simp add: filter_empty_conv)
    then show ?thesis using True by simp
  next
    case False
    have "distinct (map doc_slug docs)" using Cons.prems(1) by simp
    moreover have "hasSlug docs s" using Cons.prems(2) False by (simp add: hasSlug_def)
    ultimately obtain r where "filter (\<lambda>x. doc_slug x = s) docs = [r]"
      using Cons.IH by blast
    then show ?thesis using False by simp
  qed
qed

lemma filter_slug_touch:
  "filter (\<lambda>x. doc_slug x = s) (map (\<lambda>x. if doc_slug x = s then x\<lparr>doc_updated_at := tb\<rparr> else x) docs)
   = map (\<lambda>x. x\<lparr>doc_updated_at := tb\<rparr>) (filter (\<lambda>x. doc_slug x = s) docs)"
  by (induction docs) simp_all

lemma upsertDocument_again:
  assumes run: "upsertDocument eng ta db p k = Inr dba"
  shows "upsertDocument eng tb dba p k
         = Inr (dba\<lparr>documents :=
                  map (\<lambda>r. if doc_slug r = pd_slug p then r\<lparr>doc_updated_at := tb\<rparr> else r)
                      (documents dba)\<rparr>)"
proof -
  let ?i = "pd_id p"
  let ?touch = "\<lambda>r. if doc_slug r = pd_slug p then r\<lparr>doc_updated_at := tb\<rparr> else r"
  from run obtain docs db1 where
    1: "upsertDocumentRow eng ta p k (documents db) = Inr docs"
    and 2: "upsertDomains eng ?i (pd_domains p) (db\<lparr>documents := docs\<rparr>) = Inr db1"
    and 3: "upsertRelationships eng ta ?i (pd_relationships p) db1 = Inr dba"
    by (auto simp: upsertDocument_def split: sum.splits)
  note f2 = upsertDomains_frame [OF 2]
  note f3 = upsertRelationships_frame [OF 3]
  have docs: "documents dba = docs" using f2 f3 by simp
  let ?db2 = "dba\<lparr>documents := map ?touch docs\<rparr>"
  have row: "upsertDocumentRow eng tb p k (documents dba) = Inr (map ?touch docs)"
    using upsertDocumentRow_again [OF 1] docs by simp
  have bi: "bindable eng ?i" using upsertDocumentRow_bindable [OF 1] by simp
  have doms: "upsertDomains eng ?i (pd_domains p) ?db2 = Inr ?db2"
  proof (rule upsertDomains_again [OF bi])
    show "\<forall>s \<in> set (pd_domains p). \<forall>d. find (\<lambda>d. dom_slug d = s) (domains ?db2) = Some d
               \<longrightarrow> (?i, dom_id d) \<in> set (document_domains ?db2)"
      using upsertDomains_post [OF 2] f2 f3 by simp
  qed
  have rels: "upsertRelationships eng tb ?i (pd_relationships p) ?db2 = Inr ?db2"
  proof (rule upsertRelationships_again, intro ballI allI impI)
    fix rel t
    assume rel: "rel \<in> set (pd_relationships p)"
      and t: "find (\<lambda>r. doc_slug r = targetSlug rel) (documents ?db2) = Some t"
    have "find (\<lambda>r. doc_slug r = targetSlug rel) (map ?touch docs)
            = map_option ?touch (find (\<lambda>r. doc_slug r = targetSlug rel) docs)"
      by (rule find_touch) simp
    with t obtain t' where t': "find (\<lambda>r. doc_slug r = targetSlug rel) docs = Some t'"
      and tt: "t = ?touch t'"
      by auto
    have id: "doc_id t = doc_id t'" using tt by simp
    have "find (\<lambda>r. doc_slug r = targetSlug rel) (documents db1) = Some t'"
      using t' f2 by simp
    then show "bindable eng ?i \<and> bindable eng (doc_id t)
                   \<and> (rel_type rel \<in> set relationshipTypes
                        \<longrightarrow> list_ex (\<lambda>r. rr_id r = relationshipId ?i (rel_type rel) (doc_id t))
                              (document_relationships ?db2))"
      using upsertRelationships_post [OF 3] rel id by auto
  qed
  show ?thesis
    using row doms rels docs by (simp add: upsertDocument_def)
qed

text \<open>
  Claim C1, as the code has it. The parse of (path, content) yields a record, the slugs
  of the table are unique (as the schema demands) and the sync step has completed once.
  Then the step completes again, at any later time and for any commit; before and after
  it the table has exactly one row for the slug, and the second run changes nothing in
  the graph store but the \<^verbatim>\<open>updated_at\<close> of that row, which becomes the time of the second
  run.
\<close>

theorem resync_touches_only_updated_at:
  assumes parse: "parseGovernanceDocument path content = Inr (Some p)"
      and unique: "distinct (map doc_slug (documents (graph st)))"
      and first: "syncFile eng ta sha st path content = Inr sa"
  shows "\<exists>sb r. syncFile eng tb sha' sa path content = Inr sb
           \<and> rowsWithSlug sa (pd_slug p) = [r]
           \<and> rowsWithSlug sb (pd_slug p) = [r\<lparr>doc_updated_at := tb\<rparr>]
           \<and> graph sb = (graph sa)\<lparr>documents :=
                 map (\<lambda>x. if doc_slug x = pd_slug p then x\<lparr>doc_updated_at := tb\<rparr> else x)
                     (documents (graph sa))\<rparr>"
proof -
  let ?k = "''governance/'' @ path"
  let ?touch = "\<lambda>x. if doc_slug x = pd_slug p then x\<lparr>doc_updated_at := tb\<rparr> else x"
  from first parse obtain dba where
    run: "upsertDocument eng ta (graph st) p ?k = Inr dba" and ga: "graph sa = dba"
    by (auto simp: syncFile_def Let_def split: sum.splits)
  have again: "upsertDocument eng tb dba p ?k = Inr (dba\<lparr>documents := map ?touch (documents dba)\<rparr>)"
    using run by (rule upsertDocument_again)
  then obtain sb where second: "syncFile eng tb sha' sa path content = Inr sb"
    and gb: "graph sb = dba\<lparr>documents := map ?touch (documents dba)\<rparr>"
    using parse ga by (auto simp: syncFile_def Let_def)
  have row: "upsertDocumentRow eng ta p ?k (documents (graph st)) = Inr (documents dba)"
    using run by (rule upsertDocument_documents)
  have "distinct (map doc_slug (documents dba))"
    using row unique by (rule upsertDocumentRow_distinct)
  from filter_unique_slug [OF this upsertDocumentRow_hasSlug [OF row]]
  obtain r where r: "filter (\<lambda>x. doc_slug x = pd_slug p) (documents dba) = [r]" by blast
  have rb: "filter (\<lambda>x. doc_slug x = pd_slug p) (map ?touch (documents dba))
        = [r\<lparr>doc_updated_at := tb\<rparr>]"
    by (simp only: filter_slug_touch r list.map)
  show ?thesis
    using second r rb ga gb by (simp add: rowsWithSlug_def)
qed


theorem resync_touches_only_updated_at_witness:
  "\<exists>sa sb r. syncFile (stringEngine True) 10 ''9fceb02'' emptyStore charterPath charterMd = Inr sa
      \<and> syncFile (stringEngine True) 20 ''9fceb02'' sa charterPath charterMd = Inr sb
      \<and> rowsWithSlug sa ''charter'' = [r]
      \<and> rowsWithSlug sb ''charter'' = [r\<lparr>doc_updated_at := 20\<rparr>]"
proof -
  have "\<exists>p. parseGovernanceDocument charterPath charterMd = Inr (Some p) \<and> pd_slug p = ''charter''"
    by (simp add: charterPath_def charterMd_def parser_defs db_defs)
  then obtain p where p: "parseGovernanceDocument charterPath charterMd = Inr (Some p)"
    and slug: "pd_slug p = ''charter''" by blast
  have u: "distinct (map doc_slug (documents (graph emptyStore)))"
    by (simp add: emptyStore_def initialDatabase_def)
  have "\<exists>sa. syncFile (stringEngine True) 10 ''9fceb02'' emptyStore charterPath charterMd = Inr sa"
    by (simp add: charterPath_def charterMd_def parser_defs db_defs)
  then obtain sa where
    sa: "syncFile (stringEngine True) 10 ''9fceb02'' emptyStore charterPath charterMd = Inr sa"
    by blast
  show ?thesis
    using resync_touches_only_updated_at [OF p u sa, of 20 "''9fceb02''"] sa slug by auto
qed

text \<open>
  Claim C1 as stated fails. The charter parses to a record with the slug \<^verbatim>\<open>charter\<close>;
  after a sync at time 10 the row of that slug has \<^verbatim>\<open>updated_at\<close> 10, and after a second
  sync of the same file at time 20 it has \<^verbatim>\<open>updated_at\<close> 20: one field of the row has
  changed.
\<close>

theorem resync_counterexample:
  "parsedSlug charterPath charterMd = Some ''charter''
   \<and> map doc_updated_at
        (storedRows (syncFile (stringEngine True) 10 ''9fceb02'' emptyStore charterPath charterMd)
           ''charter'') = [10]
   \<and> map doc_updated_at
        (storedRows
           (thenSync (stringEngine True) 20 ''9fceb02''
              (syncFile (stringEngine True) 10 ''9fceb02'' emptyStore charterPath charterMd)
              charterPath charterMd)
           ''charter'') = [20]"
  by (simp add: charterPath_def charterMd_def parser_defs db_defs)

text \<open>
  Claim C5, at the input of the scenario. The charter is synced into the seeded
  database, then \<^verbatim>\<open>agreements/operating-agreement.md\<close>. With the relationship written
  as a list entry of the two fields \<^verbatim>\<open>type\<close> and \<^verbatim>\<open>target\<close> (the form in the header of
  the parser), and also with it written as an inline list of one mapping, the step
  stores the document row and the link to \<^verbatim>\<open>dao-core\<close>, but no relationship edge.
\<close>

theorem concrete_scenario_has_no_edge:
  "(\<exists>s. thenSync (stringEngine fk) 20 ''c0ffee1''
          (syncFile (stringEngine fk) 10 ''9fceb02'' emptyStore charterPath charterMd)
          agreementPath agreementMd = Inr s
       \<and> map doc_slug (documents (graph s)) = [''charter'', ''operating-agreement'']
       \<and> map doc_type (rowsWithSlug s ''operating-agreement'') = [Agreement]
       \<and> map doc_status (rowsWithSlug s ''operating-agreement'') = [Active]
       \<and> document_domains (graph s) = [(YStr ''operating-agreement'', ''dom-dao-core'')]
       \<and> document_relationships (graph s) = [])
   \<and> (\<exists>s. thenSync (stringEngine fk) 20 ''c0ffee1''
          (syncFile (stringEngine fk) 10 ''9fceb02'' emptyStore charterPath charterMd)
          agreementPath agreementInlineMd = Inr s
       \<and> document_relationships (graph s) = [])"
  by (simp add: charterPath_def charterMd_def agreementPath_def agreementMd_def
        agreementInlineMd_def parser_defs db_defs)

text \<open>Only the relationship written as one string, \<^verbatim>\<open>- authorized_by: charter\<close>, gives
  the edge of the scenario.\<close>

lemma concrete_scenario_string_form:
  "\<exists>s. thenSync (stringEngine fk) 20 ''c0ffee1''
          (syncFile (stringEngine fk) 10 ''9fceb02'' emptyStore charterPath charterMd)
          agreementPath agreementStringMd = Inr s
       \<and> map doc_slug (documents (graph s)) = [''charter'', ''operating-agreement'']
       \<and> document_domains (graph s) = [(YStr ''operating-agreement'', ''dom-dao-core'')]
       \<and> document_relationships (graph s)
           = [\<lparr>rr_id = ''operating-agreement:authorized_by:charter'',
               rr_from_id = YStr ''operating-agreement'', rr_to_id = YStr ''charter'',
               rr_relationship_type = ''authorized_by'', rr_created_at = 20\<rparr>]"
  by (simp add: charterPath_def charterMd_def agreementPath_def agreementStringMd_def
        parser_defs db_defs)

text \<open>What the deletion step does keep: no row leaves the table, every row with the slug
  that the workflow derives is retired, a detail query finds a document after the step
  exactly when it found one before, and the two slug functions agree on every path
  outside \<^verbatim>\<open>proposals/\<close>.\<close>

lemma slug_functions_agree:
  "\<not> startsWith path ''proposals/'' \<Longrightarrow> workflow_pathToSlug path = pathToSlug path"
  by (simp add: workflow_pathToSlug_def pathToSlug_def)

lemma deleteDocument_keeps_rows:
  "map doc_slug (documents (deleteDocument now db path)) = map doc_slug (documents db)"
  "map doc_id (documents (deleteDocument now db path)) = map doc_id (documents db)"
  by (simp_all add: deleteDocument_def comp_def if_distrib cong: if_cong)

lemma deleteDocument_retires:
  assumes "r \<in> set (documents (deleteDocument now db path))"
      and "doc_slug r = workflow_pathToSlug path"
  shows "doc_status r = Retired"
  using assms by (auto simp: deleteDocument_def split: if_splits)

lemma detail_after_delete:
  "(queryDetail ty (deleteDocument now db path) s = None) = (queryDetail ty db s = None)"
proof -
  let ?f = "\<lambda>r. if doc_slug r = workflow_pathToSlug path
                   then r\<lparr>doc_status := Retired, doc_updated_at := now\<rparr> else r"
  let ?P = "\<lambda>r. (doc_id r = YStr s \<or> doc_slug r = s) \<and> doc_type r = ty"
  have "find ?P (map ?f (documents db)) = map_option ?f (find ?P (documents db))"
    by (rule find_touch) simp
  then show ?thesis
    by (simp add: queryDetail_def deleteDocument_def split: option.splits)
qed

text \<open>
  Claim C2, at an input where it fails. \<^verbatim>\<open>proposals/budget.md\<close> is synced under the slug
  \<^verbatim>\<open>budget\<close>, which the parser derives; the deletion step derives \<^verbatim>\<open>proposals-budget\<close>
  for the same path, updates no row, and the document keeps the status \<^verbatim>\<open>active\<close>.
\<close>

theorem deleted_proposal_is_not_retired:
  "pathToSlug budgetPath = ''budget''
   \<and> workflow_pathToSlug budgetPath = ''proposals-budget''
   \<and> map doc_status
        (storedRows (syncFile (stringEngine fk) 10 ''9fceb02'' emptyStore budgetPath budgetMd)
           ''budget'') = [Active]
   \<and> map doc_status
        (storedRows
           (thenDelete 20
              (syncFile (stringEngine fk) 10 ''9fceb02'' emptyStore budgetPath budgetMd)
              budgetPath)
           ''budget'') = [Active]"
  by (simp add: budgetPath_def budgetMd_def parser_defs db_defs)


lemma upsertDomains_succeeds:
  assumes "bindable eng i" and "hasDocumentId (documents db) i"
  shows "\<exists>db'. upsertDomains eng i ss db = Inr db'"
  using assms
proof (induction ss arbitrary: db)
  case Nil
  then show ?case by simp
next
  case (Cons s ss)
  show ?case
  proof (cases "find (\<lambda>d. dom_slug d = s) (domains db)")
    case None
    then show ?thesis using Cons by simp
  next
    case (Some d)
    have ex: "list_ex (\<lambda>x. dom_id x = dom_id d) (domains db)"
      using Some by (rule find_dom_member)
    have "\<exists>db1. insertDocumentDomain eng i (dom_id d) db = Inr db1"
      using ex Cons.prems by (simp add: insertDocumentDomain_def)
    then obtain db1 where 1: "insertDocumentDomain eng i (dom_id d) db = Inr db1"
      by blast
    have "hasDocumentId (documents db1) i"
      using insertDocumentDomain_frame [OF 1] Cons.prems(2) by simp
    from Cons.IH [OF Cons.prems(1) this] obtain db' where "upsertDomains eng i ss db1 = Inr db'"
      by blast
    then show ?thesis using Some 1 by simp
  qed
qed

lemma find_slug_append_absent:
  assumes "\<not> hasSlug xs s"
  shows "find (\<lambda>r. doc_slug r = s) (xs @ ys) = find (\<lambda>r. doc_slug r = s) ys"
  using assms by (induction xs) (auto simp: hasSlug_def)

lemma find_slug_conflictUpdate:
  "find (\<lambda>r. doc_slug r = s)
        (map (\<lambda>r. if doc_slug r = c then conflictUpdate now p k r else r) docs)
   = map_option (\<lambda>r. if doc_slug r = c then conflictUpdate now p k r else r)
                (find (\<lambda>r. doc_slug r = s) docs)"
  by (rule find_touch) (simp add: conflictUpdate_def)

lemma hasDocumentId_conflictUpdate:
  "hasDocumentId (map (\<lambda>r. if doc_slug r = c then conflictUpdate now p k r else r) docs) i
   = hasDocumentId docs i"
  by (induction docs) (simp_all add: hasDocumentId_def conflictUpdate_def)

lemma hasSlug_find: "hasSlug docs s \<longleftrightarrow> find (\<lambda>r. doc_slug r = s) docs \<noteq> None"
  by (auto simp: hasSlug_def list_ex_iff find_None_iff)

lemma find_slug_conflictUpdate_other:
  assumes "s \<noteq> c"
  shows "find (\<lambda>r. doc_slug r = s)
           (map (\<lambda>r. if doc_slug r = c then conflictUpdate now p k r else r) docs)
         = find (\<lambda>r. doc_slug r = s) docs"
  using assms by (induction docs) (simp_all add: conflictUpdate_def)

lemma find_slug_snoc_other:
  assumes "doc_slug x \<noteq> s"
  shows "find (\<lambda>r. doc_slug r = s) (docs @ [x]) = find (\<lambda>r. doc_slug r = s) docs"
  using assms by (induction docs) simp_all

text \<open>What the first statement leaves alone: the rows of other slugs, and the ids that
  are stored.\<close>

lemma upsertDocumentRow_other_slug:
  assumes "upsertDocumentRow eng ta p k docs = Inr docs'" and "s \<noteq> pd_slug p"
  shows "find (\<lambda>r. doc_slug r = s) docs' = find (\<lambda>r. doc_slug r = s) docs"
  using upsertDocumentRow_cases [OF assms(1)] assms(2)
  by (auto simp: find_slug_conflictUpdate_other find_slug_snoc_other insertedRow_def)

lemma upsertDocumentRow_keeps_ids:
  assumes "upsertDocumentRow eng ta p k docs = Inr docs'" and "hasDocumentId docs i"
  shows "hasDocumentId docs' i"
  using upsertDocumentRow_cases [OF assms(1)] assms(2)
  by (auto simp: hasDocumentId_conflictUpdate) (simp add: hasDocumentId_def)

lemma upsertDocumentRow_succeeds:
  assumes "bindable eng (pd_id c)" "bindable eng (pd_title c)"
        "bindableOpt eng (pd_effectiveFrom c)" "bindableOpt eng (pd_effectiveTo c)"
        "bindableOpt eng (pd_enactedBy c)"
      and "hasDocumentId docs (pd_id c) = hasSlug docs (pd_slug c)"
  shows "\<exists>docs'. upsertDocumentRow eng ta c k docs = Inr docs' \<and> hasDocumentId docs' (pd_id c)"
proof (cases "hasSlug docs (pd_slug c)")
  case True
  then show ?thesis
    using assms by (simp add: upsertDocumentRow_def hasDocumentId_conflictUpdate)
next
  case False
  then show ?thesis
    using assms by (simp add: upsertDocumentRow_def hasDocumentId_def insertedRow_def)
qed

text \<open>The sync of a document whose only relationship points to a slug that is not
  stored.\<close>

lemma upsert_dangling:
  assumes rel: "pd_relationships c = [\<lparr>rel_type = ty, targetSlug = t\<rparr>]"
      and bind: "bindable eng (pd_id c)" "bindable eng (pd_title c)"
        "bindableOpt eng (pd_effectiveFrom c)" "bindableOpt eng (pd_effectiveTo c)"
        "bindableOpt eng (pd_enactedBy c)"
      and stored: "hasDocumentId (documents db) (pd_id c) = hasSlug (documents db) (pd_slug c)"
      and dangling: "\<not> hasSlug (documents db) t" "t \<noteq> pd_slug c"
  shows "\<exists>db1. upsertDocument eng ta db c kc = Inr db1
           \<and> document_relationships db1 = document_relationships db
           \<and> upsertDocumentRow eng ta c kc (documents db) = Inr (documents db1)
           \<and> hasDocumentId (documents db1) (pd_id c)"
proof -
  from upsertDocumentRow_succeeds [OF bind stored, of ta kc]
  obtain docs where row: "upsertDocumentRow eng ta c kc (documents db) = Inr docs"
    and hid: "hasDocumentId docs (pd_id c)" by blast
  have "hasDocumentId (documents (db\<lparr>documents := docs\<rparr>)) (pd_id c)"
    using hid by simp
  from upsertDomains_succeeds [OF bind(1) this]
  obtain db1 where doms: "upsertDomains eng (pd_id c) (pd_domains c) (db\<lparr>documents := docs\<rparr>) = Inr db1"
    by blast
  note f = upsertDomains_frame [OF doms]
  have "find (\<lambda>r. doc_slug r = t) docs = find (\<lambda>r. doc_slug r = t) (documents db)"
    using row dangling(2) by (rule upsertDocumentRow_other_slug)
  then have nf: "find (\<lambda>r. doc_slug r = t) (documents db1) = None"
    using f dangling(1) by (simp add: hasSlug_find)
  have rels: "upsertRelationships eng ta (pd_id c) (pd_relationships c) db1 = Inr db1"
    using nf by (simp add: rel)
  show ?thesis
    using row doms rels f hid by (simp add: upsertDocument_def)
qed

text \<open>A later sync of the document, once it is stored under its id and the target is
  stored too.\<close>

lemma upsert_resolves_target:
  assumes rel: "pd_relationships c = [\<lparr>rel_type = ty, targetSlug = t\<rparr>]"
      and vocab: "ty \<in> set relationshipTypes"
      and bind: "bindable eng (pd_id c)" "bindable eng (pd_title c)"
        "bindableOpt eng (pd_effectiveFrom c)" "bindableOpt eng (pd_effectiveTo c)"
        "bindableOpt eng (pd_enactedBy c)" "bindable eng (doc_id rt)"
      and stored: "hasSlug (documents db) (pd_slug c)" "hasDocumentId (documents db) (pd_id c)"
      and target: "find (\<lambda>r. doc_slug r = t) (documents db) = Some rt" "t \<noteq> pd_slug c"
      and absent: "\<not> list_ex (\<lambda>r. rr_id r = relationshipId (pd_id c) ty (doc_id rt))
                       (document_relationships db)"
  shows "\<exists>db3. upsertDocument eng tc db c kc = Inr db3
           \<and> document_relationships db3 = document_relationships db @
               [\<lparr>rr_id = relationshipId (pd_id c) ty (doc_id rt), rr_from_id = pd_id c,
                 rr_to_id = doc_id rt, rr_relationship_type = ty, rr_created_at = tc\<rparr>]"
proof -
  let ?f = "\<lambda>r. if doc_slug r = pd_slug c then conflictUpdate tc c kc r else r"
  let ?docs = "map ?f (documents db)"
  have row: "upsertDocumentRow eng tc c kc (documents db) = Inr ?docs"
    using bind stored by (simp add: upsertDocumentRow_def)
  have hid: "hasDocumentId ?docs (pd_id c)"
    using stored(2) by (simp only: hasDocumentId_conflictUpdate)
  then have "hasDocumentId (documents (db\<lparr>documents := ?docs\<rparr>)) (pd_id c)" by simp
  from upsertDomains_succeeds [OF bind(1) this]
  obtain db1 where doms: "upsertDomains eng (pd_id c) (pd_domains c) (db\<lparr>documents := ?docs\<rparr>) = Inr db1"
    by blast
  note f = upsertDomains_frame [OF doms]
  have d1: "documents db1 = ?docs" and r1: "document_relationships db1 = document_relationships db"
    using f by simp_all
  have "doc_slug rt = t" using target(1) by (auto simp: find_Some_iff)
  then have frt: "?f rt = rt" using target(2) by simp
  have ft: "find (\<lambda>r. doc_slug r = t) (documents db1) = Some rt"
    unfolding d1 by (simp only: find_slug_conflictUpdate target(1) option.map frt)
  have "rt \<in> set (documents db)" using target(1) by (auto simp: find_Some_iff in_set_conv_nth)
  then have "hasDocumentId (documents db) (doc_id rt)"
    by (auto simp: hasDocumentId_def list_ex_iff)
  then have hrt: "hasDocumentId (documents db1) (doc_id rt)"
    unfolding d1 by (simp only: hasDocumentId_conflictUpdate)
  have hc: "hasDocumentId (documents db1) (pd_id c)" using hid d1 by simp
  have ins: "insertRelationship eng tc (pd_id c) ty (doc_id rt) db1
         = Inr (db1\<lparr>document_relationships := document_relationships db1 @
               [\<lparr>rr_id = relationshipId (pd_id c) ty (doc_id rt), rr_from_id = pd_id c,
                 rr_to_id = doc_id rt, rr_relationship_type = ty, rr_created_at = tc\<rparr>]\<rparr>)"
    using bind(1,6) vocab absent hrt hc r1 by (simp add: insertRelationship_def)
  have rels: "upsertRelationships eng tc (pd_id c) (pd_relationships c) db1
         = Inr (db1\<lparr>document_relationships := document_relationships db1 @
               [\<lparr>rr_id = relationshipId (pd_id c) ty (doc_id rt), rr_from_id = pd_id c,
                 rr_to_id = doc_id rt, rr_relationship_type = ty, rr_created_at = tc\<rparr>]\<rparr>)"
    using ft ins by (simp add: rel)
  show ?thesis
    using row doms rels r1 by (simp add: upsertDocument_def)
qed

lemma upsert_dangling_then_resolved:
  assumes rel: "pd_relationships c = [\<lparr>rel_type = ty, targetSlug = t\<rparr>]"
      and vocab: "ty \<in> set relationshipTypes"
      and bind: "bindable eng (pd_id c)" "bindable eng (pd_title c)"
        "bindableOpt eng (pd_effectiveFrom c)" "bindableOpt eng (pd_effectiveTo c)"
        "bindableOpt eng (pd_enactedBy c)"
      and stored: "hasDocumentId (documents db) (pd_id c) = hasSlug (documents db) (pd_slug c)"
      and dangling: "\<not> hasSlug (documents db) t" "t \<noteq> pd_slug c"
  shows "\<exists>db1. upsertDocument eng ta db c kc = Inr db1
           \<and> document_relationships db1 = document_relationships db
           \<and> (\<forall>tg kt db2.
                 pd_slug tg = t \<and> upsertDocument eng tb db1 tg kt = Inr db2
                 \<and> \<not> list_ex (\<lambda>r. rr_id r = relationshipId (pd_id c) ty (pd_id tg))
                        (document_relationships db2)
                 \<longrightarrow> (\<exists>db3 db4.
                        upsertDocument eng tc db2 c kc = Inr db3
                        \<and> document_relationships db3 = document_relationships db2 @
                            [\<lparr>rr_id = relationshipId (pd_id c) ty (pd_id tg),
                              rr_from_id = pd_id c, rr_to_id = pd_id tg,
                              rr_relationship_type = ty, rr_created_at = tc\<rparr>]
                        \<and> upsertDocument eng td db3 c kc = Inr db4
                        \<and> document_relationships db4 = document_relationships db3))"
proof -
  from upsert_dangling [OF rel bind stored dangling, of ta kc]
  obtain db1 where first: "upsertDocument eng ta db c kc = Inr db1"
    and r1: "document_relationships db1 = document_relationships db"
    and row1: "upsertDocumentRow eng ta c kc (documents db) = Inr (documents db1)"
    and id1: "hasDocumentId (documents db1) (pd_id c)"
    by blast
  have slug1: "hasSlug (documents db1) (pd_slug c)"
    using row1 by (rule upsertDocumentRow_hasSlug)
  have "find (\<lambda>r. doc_slug r = t) (documents db1) = find (\<lambda>r. doc_slug r = t) (documents db)"
    using row1 dangling(2) by (rule upsertDocumentRow_other_slug)
  then have nt1: "\<not> hasSlug (documents db1) t"
    using dangling(1) by (simp add: hasSlug_find)
  have later: "\<exists>db3 db4.
                        upsertDocument eng tc db2 c kc = Inr db3
                        \<and> document_relationships db3 = document_relationships db2 @
                            [\<lparr>rr_id = relationshipId (pd_id c) ty (pd_id tg),
                              rr_from_id = pd_id c, rr_to_id = pd_id tg,
                              rr_relationship_type = ty, rr_created_at = tc\<rparr>]
                        \<and> upsertDocument eng td db3 c kc = Inr db4
                        \<and> document_relationships db4 = document_relationships db3"
    if tg: "pd_slug tg = t" and sync: "upsertDocument eng tb db1 tg kt = Inr db2"
      and absent: "\<not> list_ex (\<lambda>r. rr_id r = relationshipId (pd_id c) ty (pd_id tg))
                        (document_relationships db2)"
    for tg kt db2
  proof -
    have trow: "upsertDocumentRow eng tb tg kt (documents db1) = Inr (documents db2)"
      using sync by (rule upsertDocument_documents)
    have d2: "documents db2 = documents db1 @ [insertedRow tb tg kt]"
      using upsertDocumentRow_cases [OF trow] nt1 tg by simp
    have bt: "bindable eng (pd_id tg)" using upsertDocumentRow_bindable [OF trow] by simp
    have "find (\<lambda>r. doc_slug r = pd_slug c) (documents db2)
            = find (\<lambda>r. doc_slug r = pd_slug c) (documents db1)"
      using trow dangling(2) tg by (intro upsertDocumentRow_other_slug) auto
    then have s2: "hasSlug (documents db2) (pd_slug c)"
      using slug1 by (simp add: hasSlug_find)
    have i2: "hasDocumentId (documents db2) (pd_id c)"
      using trow id1 by (rule upsertDocumentRow_keeps_ids)
    have ft: "find (\<lambda>r. doc_slug r = t) (documents db2) = Some (insertedRow tb tg kt)"
      using nt1 tg by (simp add: d2 find_slug_append_absent insertedRow_def)
    have idt: "doc_id (insertedRow tb tg kt) = pd_id tg" by (simp add: insertedRow_def)
    from upsert_resolves_target [OF rel vocab bind _ s2 i2 ft dangling(2), of tc kc] bt absent
    obtain db3 where third: "upsertDocument eng tc db2 c kc = Inr db3"
      and r3: "document_relationships db3 = document_relationships db2 @
               [\<lparr>rr_id = relationshipId (pd_id c) ty (pd_id tg), rr_from_id = pd_id c,
                 rr_to_id = pd_id tg, rr_relationship_type = ty, rr_created_at = tc\<rparr>]"
      by (auto simp: idt)
    have "upsertDocument eng td db3 c kc
         = Inr (db3\<lparr>documents :=
                  map (\<lambda>r. if doc_slug r = pd_slug c then r\<lparr>doc_updated_at := td\<rparr> else r)
                      (documents db3)\<rparr>)"
      using third by (rule upsertDocument_again)
    then show ?thesis using third r3 by simp
  qed
  show ?thesis
    using first r1 later by blast
qed

lemma syncFile_parsed:
  assumes "parseGovernanceDocument path content = Inr (Some c)"
  shows "(syncFile eng now sha st path content = Inr s')
         \<longleftrightarrow> (upsertDocument eng now (graph st) c (''governance/'' @ path) = Inr (graph s')
              \<and> s' = st\<lparr>content_mirror := (content_mirror st)
                        (''governance/'' @ path \<mapsto>
                           \<lparr>r2_body = content, r2_commitSha = sha, r2_syncedAt = now\<rparr>),
                      graph := graph s'\<rparr>)"
  using assms by (auto simp: syncFile_def Let_def split: sum.splits prod.splits)

text \<open>
  Claim C4, as the code has it. The parser reads from the metadata of a file exactly one
  relationship, of a type in the vocabulary, to a slug \<open>t\<close> that is not stored and is
  not the slug of the file itself; the values of the record can be bound, and its id is
  stored exactly when its slug is (a new document, or one synced before). Then the sync
  step of the file completes and leaves the relationship table as it was. If afterwards
  a file whose slug is \<open>t\<close> is synced, and no row already has the id of the edge, the
  next sync of the first file appends exactly the edge (from, type, target) and the sync
  after that leaves the relationship table unchanged.
\<close>

theorem dangling_reference:
  assumes parse: "parseGovernanceDocument path content = Inr (Some c)"
      and rel: "pd_relationships c = [\<lparr>rel_type = ty, targetSlug = t\<rparr>]"
      and vocab: "ty \<in> set relationshipTypes"
      and bind: "bindable eng (pd_id c)" "bindable eng (pd_title c)"
        "bindableOpt eng (pd_effectiveFrom c)" "bindableOpt eng (pd_effectiveTo c)"
        "bindableOpt eng (pd_enactedBy c)"
      and stored: "hasDocumentId (documents (graph st)) (pd_id c)
                     = hasSlug (documents (graph st)) (pd_slug c)"
      and dangling: "\<not> hasSlug (documents (graph st)) t" "t \<noteq> pd_slug c"
  shows "\<exists>sa. syncFile eng ta sha st path content = Inr sa
           \<and> document_relationships (graph sa) = document_relationships (graph st)
           \<and> (\<forall>tpath tcontent tg shb sb.
                 parseGovernanceDocument tpath tcontent = Inr (Some tg) \<and> pd_slug tg = t
                 \<and> syncFile eng tb shb sa tpath tcontent = Inr sb
                 \<and> \<not> list_ex (\<lambda>r. rr_id r = relationshipId (pd_id c) ty (pd_id tg))
                        (document_relationships (graph sb))
                 \<longrightarrow> (\<exists>sc sd.
                        syncFile eng tc shc sb path content = Inr sc
                        \<and> document_relationships (graph sc) = document_relationships (graph sb) @
                            [\<lparr>rr_id = relationshipId (pd_id c) ty (pd_id tg),
                              rr_from_id = pd_id c, rr_to_id = pd_id tg,
                              rr_relationship_type = ty, rr_created_at = tc\<rparr>]
                        \<and> syncFile eng td shd sc path content = Inr sd
                        \<and> document_relationships (graph sd) = document_relationships (graph sc)))"
proof -
  let ?k = "''governance/'' @ path"
  from upsert_dangling_then_resolved [OF rel vocab bind stored dangling, of ta ?k tb tc td]
  obtain db1 where first: "upsertDocument eng ta (graph st) c ?k = Inr db1"
    and r1: "document_relationships db1 = document_relationships (graph st)"
    and later: "\<And>tg kt db2. pd_slug tg = t \<Longrightarrow> upsertDocument eng tb db1 tg kt = Inr db2
        \<Longrightarrow> \<not> list_ex (\<lambda>r. rr_id r = relationshipId (pd_id c) ty (pd_id tg))
                        (document_relationships db2)
        \<Longrightarrow> \<exists>db3 db4. upsertDocument eng tc db2 c ?k = Inr db3
                        \<and> document_relationships db3 = document_relationships db2 @
                            [\<lparr>rr_id = relationshipId (pd_id c) ty (pd_id tg),
                              rr_from_id = pd_id c, rr_to_id = pd_id tg,
                              rr_relationship_type = ty, rr_created_at = tc\<rparr>]
                        \<and> upsertDocument eng td db3 c ?k = Inr db4
                        \<and> document_relationships db4 = document_relationships db3"
    by blast
  have run: "\<exists>s'. syncFile eng now sh s path content = Inr s' \<and> graph s' = db'"
    if "upsertDocument eng now (graph s) c ?k = Inr db'" for now sh s db'
    using that parse by (simp add: syncFile_def Let_def)
  from run [OF first] obtain sa where sa: "syncFile eng ta sha st path content = Inr sa"
    and ga: "graph sa = db1" by blast
  have after: "\<exists>sc sd.
                        syncFile eng tc shc sb path content = Inr sc
                        \<and> document_relationships (graph sc) = document_relationships (graph sb) @
                            [\<lparr>rr_id = relationshipId (pd_id c) ty (pd_id tg),
                              rr_from_id = pd_id c, rr_to_id = pd_id tg,
                              rr_relationship_type = ty, rr_created_at = tc\<rparr>]
                        \<and> syncFile eng td shd sc path content = Inr sd
                        \<and> document_relationships (graph sd) = document_relationships (graph sc)"
    if tp: "parseGovernanceDocument tpath tcontent = Inr (Some tg)" and ts: "pd_slug tg = t"
      and sync: "syncFile eng tb shb sa tpath tcontent = Inr sb"
      and absent: "\<not> list_ex (\<lambda>r. rr_id r = relationshipId (pd_id c) ty (pd_id tg))
                        (document_relationships (graph sb))"
    for tpath tcontent tg shb sb
  proof -
    have "upsertDocument eng tb db1 tg (''governance/'' @ tpath) = Inr (graph sb)"
      using syncFile_parsed [OF tp, of eng tb shb sa sb] sync ga by simp
    from later [OF ts this absent]
    obtain db3 db4 where 3: "upsertDocument eng tc (graph sb) c ?k = Inr db3"
      and r3: "document_relationships db3 = document_relationships (graph sb) @
                            [\<lparr>rr_id = relationshipId (pd_id c) ty (pd_id tg),
                              rr_from_id = pd_id c, rr_to_id = pd_id tg,
                              rr_relationship_type = ty, rr_created_at = tc\<rparr>]"
      and 4: "upsertDocument eng td db3 c ?k = Inr db4"
      and r4: "document_relationships db4 = document_relationships db3"
      by blast
    from run [OF 3] obtain sc where sc: "syncFile eng tc shc sb path content = Inr sc"
      and gc: "graph sc = db3" by blast
    have "upsertDocument eng td (graph sc) c ?k = Inr db4" using 4 gc by simp
    from run [OF this] obtain sd where sd: "syncFile eng td shd sc path content = Inr sd"
      and gd: "graph sd = db4" by blast
    show ?thesis using sc sd gc gd r3 r4 by auto
  qed
  show ?thesis
    using sa ga r1 after by blast
qed

theorem dangling_reference_witness:
  "\<exists>sa sb sc sd.
      syncFile (stringEngine True) 10 ''9fceb02'' emptyStore policyPath policyMd = Inr sa
    \<and> document_relationships (graph sa) = []
    \<and> syncFile (stringEngine True) 20 ''c0ffee1'' sa charterPath charterMd = Inr sb
    \<and> syncFile (stringEngine True) 30 ''c0ffee1'' sb policyPath policyMd = Inr sc
    \<and> document_relationships (graph sc) =
        [\<lparr>rr_id = ''travel-policy:authorized_by:charter'', rr_from_id = YStr ''travel-policy'',
          rr_to_id = YStr ''charter'', rr_relationship_type = ''authorized_by'',
          rr_created_at = 30\<rparr>]
    \<and> syncFile (stringEngine True) 40 ''c0ffee1'' sc policyPath policyMd = Inr sd
    \<and> document_relationships (graph sd) = document_relationships (graph sc)"
proof -
  let ?E = "stringEngine True"
  have "\<exists>c. parseGovernanceDocument policyPath policyMd = Inr (Some c)
          \<and> pd_relationships c = [\<lparr>rel_type = ''authorized_by'', targetSlug = ''charter''\<rparr>]
          \<and> pd_id c = YStr ''travel-policy'' \<and> pd_slug c = ''travel-policy''
          \<and> pd_title c = YStr ''Travel Policy'' \<and> pd_effectiveFrom c = None
          \<and> pd_effectiveTo c = None \<and> pd_enactedBy c = None"
    by (simp add: policyPath_def policyMd_def parser_defs db_defs)
  then obtain c where parse: "parseGovernanceDocument policyPath policyMd = Inr (Some c)"
    and rel: "pd_relationships c = [\<lparr>rel_type = ''authorized_by'', targetSlug = ''charter''\<rparr>]"
    and c: "pd_id c = YStr ''travel-policy''" "pd_slug c = ''travel-policy''"
      "pd_title c = YStr ''Travel Policy''" "pd_effectiveFrom c = None"
      "pd_effectiveTo c = None" "pd_enactedBy c = None"
    by blast
  have vocab: "''authorized_by'' \<in> set relationshipTypes"
    by (simp add: relationshipTypes_def)
  have bind: "bindable ?E (pd_id c)" "bindable ?E (pd_title c)"
    "bindableOpt ?E (pd_effectiveFrom c)" "bindableOpt ?E (pd_effectiveTo c)"
    "bindableOpt ?E (pd_enactedBy c)"
    by (simp_all add: c stringEngine_def bindableOpt_def)
  have stored: "hasDocumentId (documents (graph emptyStore)) (pd_id c)
                 = hasSlug (documents (graph emptyStore)) (pd_slug c)"
    by (simp add: emptyStore_def initialDatabase_def hasDocumentId_def hasSlug_def)
  have dangling: "\<not> hasSlug (documents (graph emptyStore)) ''charter''"
    "''charter'' \<noteq> pd_slug c"
    by (simp_all add: emptyStore_def initialDatabase_def hasSlug_def c)
  from dangling_reference [OF parse rel vocab bind stored dangling,
      of 10 "''9fceb02''" 20 30 "''c0ffee1''" 40 "''c0ffee1''"]
  obtain sa where first: "syncFile ?E 10 ''9fceb02'' emptyStore policyPath policyMd = Inr sa"
    and r1: "document_relationships (graph sa) = document_relationships (graph emptyStore)"
    and later: "\<And>tpath tcontent tg shb sb.
        parseGovernanceDocument tpath tcontent = Inr (Some tg) \<Longrightarrow> pd_slug tg = ''charter''
        \<Longrightarrow> syncFile ?E 20 shb sa tpath tcontent = Inr sb
        \<Longrightarrow> \<not> list_ex (\<lambda>r. rr_id r = relationshipId (pd_id c) ''authorized_by'' (pd_id tg))
                        (document_relationships (graph sb))
        \<Longrightarrow> \<exists>sc sd. syncFile ?E 30 ''c0ffee1'' sb policyPath policyMd = Inr sc
                        \<and> document_relationships (graph sc) = document_relationships (graph sb) @
                            [\<lparr>rr_id = relationshipId (pd_id c) ''authorized_by'' (pd_id tg),
                              rr_from_id = pd_id c, rr_to_id = pd_id tg,
                              rr_relationship_type = ''authorized_by'', rr_created_at = 30\<rparr>]
                        \<and> syncFile ?E 40 ''c0ffee1'' sc policyPath policyMd = Inr sd
                        \<and> document_relationships (graph sd) = document_relationships (graph sc)"
    by blast
  have "\<exists>tg. parseGovernanceDocument charterPath charterMd = Inr (Some tg)
          \<and> pd_slug tg = ''charter'' \<and> pd_id tg = YStr ''charter''"
    by (simp add: charterPath_def charterMd_def parser_defs db_defs)
  then obtain tg where tp: "parseGovernanceDocument charterPath charterMd = Inr (Some tg)"
    and tg: "pd_slug tg = ''charter''" "pd_id tg = YStr ''charter''"
    by blast
  have "\<exists>s1 s2. syncFile ?E 10 ''9fceb02'' emptyStore policyPath policyMd = Inr s1
              \<and> syncFile ?E 20 ''c0ffee1'' s1 charterPath charterMd = Inr s2
              \<and> document_relationships (graph s2) = []"
    by (simp add: policyPath_def policyMd_def charterPath_def charterMd_def parser_defs db_defs)
  then obtain sb where second: "syncFile ?E 20 ''c0ffee1'' sa charterPath charterMd = Inr sb"
    and r2: "document_relationships (graph sb) = []"
    using first by auto
  from later [OF tp tg(1) second] r2
  obtain sc sd where "syncFile ?E 30 ''c0ffee1'' sb policyPath policyMd = Inr sc"
    "document_relationships (graph sc) =
        [\<lparr>rr_id = relationshipId (pd_id c) ''authorized_by'' (pd_id tg),
          rr_from_id = pd_id c, rr_to_id = pd_id tg,
          rr_relationship_type = ''authorized_by'', rr_created_at = 30\<rparr>]"
    "syncFile ?E 40 ''c0ffee1'' sc policyPath policyMd = Inr sd"
    "document_relationships (graph sd) = document_relationships (graph sc)"
    by auto
  then show ?thesis
    using first r1 second
    by (auto simp: emptyStore_def initialDatabase_def relationshipId_def jsToString_def c tg)
qed

text \<open>
  Claim C4 as stated fails when the target is the document itself. The parser reads the
  relationship (\<^verbatim>\<open>authorized_by\<close>, \<^verbatim>\<open>travel-policy\<close>) from the new file
  \<^verbatim>\<open>policies/travel-policy.md\<close>; no row has that slug; the row of the document is
  written before the target is looked up, so the first sync already inserts an edge.
\<close>

theorem self_reference_counterexample:
  "parsedRelationships policyPath selfPolicyMd
     = Some [\<lparr>rel_type = ''authorized_by'', targetSlug = ''travel-policy''\<rparr>]
   \<and> rowsWithSlug emptyStore ''travel-policy'' = []
   \<and> storedEdges (syncFile (stringEngine True) 10 ''9fceb02'' emptyStore policyPath selfPolicyMd)
     = [\<lparr>rr_id = ''travel-policy:authorized_by:travel-policy'',
         rr_from_id = YStr ''travel-policy'', rr_to_id = YStr ''travel-policy'',
         rr_relationship_type = ''authorized_by'', rr_created_at = 10\<rparr>]"
  by (simp add: policyPath_def selfPolicyMd_def parsedRelationships_def storedEdges_def
        parser_defs db_defs)


end
